theory Spec2Isabelle
  imports Main "HOL-Library.AList"
begin

section \<open>The command line of Principal Mapper (\<open>principalmapper/__main__.py\<close>)\<close>

text \<open>
  The module parses the command line, picks a subcommand and hands the parsed arguments to
  a handler. The handlers call collaborators that live in other modules
  (\<open>botocore_tools\<close>, \<open>graph_actions\<close>, \<open>query_utils\<close>, \<open>query_actions\<close>, \<open>repl\<close>,
  \<open>graph_writer\<close>, \<open>find_risks\<close>, \<open>json\<close>). Those collaborators are parameters of the model
  (the record \<open>env\<close>). A collaborator that computes a value returns \<open>exn + value\<close>, so a
  Python exception raised inside it propagates through the handler as it does in the
  source. A collaborator that acts (prints a query result, runs the REPL, writes a file)
  is recorded as a \<open>call\<close> in the trace the handler returns, next to what the handler
  prints itself.
\<close>

subsection \<open>Python strings: \<open>str.split\<close> and \<open>str.join\<close>\<close>

text \<open>\<open>s.split(sep)\<close> for a one-character separator: every occurrence of the separator
  ends a component, so the result always has one component more than \<open>s\<close> has separators.\<close>

fun str_split :: "char \<Rightarrow> string \<Rightarrow> string list" where
  "str_split sep [] = [[]]"
| "str_split sep (c # cs) =
     (if c = sep then [] # str_split sep cs
      else (case str_split sep cs of
              [] \<Rightarrow> [[c]]
            | w # ws \<Rightarrow> (c # w) # ws))"

text \<open>\<open>sep.join(components)\<close>.\<close>

fun str_join :: "string \<Rightarrow> string list \<Rightarrow> string" where
  "str_join sep [] = []"
| "str_join sep [w] = w"
| "str_join sep (w # v # ws) = w @ sep @ str_join sep (v # ws)"

subsection \<open>Parsed arguments, exceptions, collaborators\<close>

text \<open>The namespace \<open>argparse\<close> returns. An option that was not given is \<open>None\<close>;
  \<open>store_true\<close> flags are booleans. \<open>picked_cmd\<close> is the \<open>dest\<close> of the subparsers.\<close>

record parsed_args =
  profile :: "string option"
  debug :: bool
  account :: "string option"
  picked_cmd :: "string option"
  query :: string
  skip_admin :: bool
  grab_resource_policy :: bool
  resource_policy_text :: "string option"
  resource_owner :: "string option"
  include_unauthorized :: bool
  principal :: "string option"
  action :: "string option"
  resource :: "string option"
  condition :: "string list option"
  preset :: "string option"
  only_privesc :: bool
  filetype :: string
  output_type :: string

text \<open>Exceptions: the \<open>ValueError\<close> the handlers raise themselves, the \<open>KeyError\<close> of a
  dictionary lookup, the \<open>SystemExit\<close> with which \<open>argparse\<close> ends the program (with its
  exit status), and whatever a collaborator raises (named by its class).\<close>

datatype exn = ValueError string | KeyError string | SystemExit int | Raised string

text \<open>The acting collaborators, with the arguments of each call in the order of the source.
  The condition dictionary is an association list in insertion order.\<close>

datatype ('g, 'p) call =
    Print string
  | Query_response 'g string bool "'p option" "string option" bool
  | Argquery 'g "string option" "string option" "string option" "(string \<times> string) list"
      "string option" bool "'p option" "string option" bool
  | Begin_repl 'g
  | Draw_privesc_paths 'g string string
  | Handle_request 'g string string
  | Gen_findings_and_print 'g string

text \<open>The collaborators: \<open>'s\<close> is a botocore session, \<open>'g\<close> a Graph, \<open>'p\<close> a policy
  document (a parsed JSON value). \<open>pull_cached_resource_policy_by_arn\<close> is given the graph
  (the source passes \<open>graph.policies\<close>), the \<open>arn\<close> argument and the \<open>query\<close> argument.
  \<open>perform\<close> runs an acting collaborator and says whether it raised.\<close>

record ('s, 'g, 'p) env =
  get_session :: "string option \<Rightarrow> exn + 's"
  get_existing_graph :: "'s option \<Rightarrow> string option \<Rightarrow> exn + 'g"
  pull_cached_resource_policy_by_arn :: "'g \<Rightarrow> string option \<Rightarrow> string option \<Rightarrow> exn + 'p"
  json_loads :: "string \<Rightarrow> exn + 'p"
  metadata :: "'g \<Rightarrow> string \<Rightarrow> string option"
  process_arguments :: "parsed_args \<Rightarrow> exn + int"
  perform :: "('g, 'p) call \<Rightarrow> exn option"

text \<open>What a handler produces: the trace of calls it made, and either the exception that
  left it or the exit code it returned.\<close>

type_synonym ('g, 'p) outcome_of_run = "('g, 'p) call list \<times> (exn + int)"

subsection \<open>The handlers\<close>

text \<open>\<open>_grab_session\<close>: a session is created only when \<open>--account\<close> was not given.\<close>

definition grab_session :: "('s, 'g, 'p) env \<Rightarrow> parsed_args \<Rightarrow> exn + 's option" where
  "grab_session e a =
     (if account a = None
      then (case get_session e (profile a) of Inl x \<Rightarrow> Inl x | Inr s \<Rightarrow> Inr (Some s))
      else Inr None)"

text \<open>Running an acting collaborator as the last step of a handler that then returns 0.\<close>

definition run_and_return :: "('s, 'g, 'p) env \<Rightarrow> ('g, 'p) call \<Rightarrow> ('g, 'p) outcome_of_run" where
  "run_and_return e c =
     (case perform e c of
        Some x \<Rightarrow> ([c], Inl x)
      | None \<Rightarrow> ([c], Inr 0))"

definition session_required :: string where
  "session_required =
     ''Resource policy retrieval requires an active session (missing --profile argument?)''"

text \<open>Python truthiness of \<open>parsed_args.resource_policy_text\<close>: \<open>None\<close> and the empty
  string are false.\<close>

definition truthy :: "string option \<Rightarrow> bool" where
  "truthy t = (case t of None \<Rightarrow> False | Some s \<Rightarrow> s \<noteq> [])"

text \<open>Lines 169-176 of \<open>handle_query\<close>: which resource policy the query gets.\<close>

definition query_resource_policy ::
    "('s, 'g, 'p) env \<Rightarrow> 's option \<Rightarrow> 'g \<Rightarrow> parsed_args \<Rightarrow> exn + 'p option" where
  "query_resource_policy e session graph a =
     (if grab_resource_policy a then
        (if session = None then Inl (ValueError session_required)
         else (case pull_cached_resource_policy_by_arn e graph None (Some (query a)) of
                 Inl x \<Rightarrow> Inl x
               | Inr p \<Rightarrow> Inr (Some p)))
      else if truthy (resource_policy_text a) then
        (case json_loads e (the (resource_policy_text a)) of
           Inl x \<Rightarrow> Inl x
         | Inr p \<Rightarrow> Inr (Some p))
      else Inr None)"

definition handle_query :: "('s, 'g, 'p) env \<Rightarrow> parsed_args \<Rightarrow> ('g, 'p) outcome_of_run" where
  "handle_query e a =
     (case grab_session e a of
        Inl x \<Rightarrow> ([], Inl x)
      | Inr session \<Rightarrow>
          (case get_existing_graph e session (account a) of
             Inl x \<Rightarrow> ([], Inl x)
           | Inr graph \<Rightarrow>
               (case query_resource_policy e session graph a of
                  Inl x \<Rightarrow> ([], Inl x)
                | Inr resource_policy \<Rightarrow>
                    run_and_return e
                      (Query_response graph (query a) (skip_admin a) resource_policy
                         (resource_owner a) (include_unauthorized a)))))"

text \<open>Lines 192-203 of \<open>handle_argquery\<close>: the loop over the condition arguments. \<open>None\<close>
  is the early \<open>return 64\<close>; \<open>conditions.update({key: value})\<close> keeps the position of a
  key that is already there and appends a new one, as \<open>AList.update\<close> does.\<close>

definition format_not_matched :: string where
  "format_not_matched = ''Format for condition args not matched: <key>=<value>''"

fun condition_loop :: "string list \<Rightarrow> (string \<times> string) list \<Rightarrow> (string \<times> string) list option" where
  "condition_loop [] conditions = Some conditions"
| "condition_loop (arg # args) conditions =
     (let components = str_split (CHR ''='') arg in
      if length components < 2 then None
      else
        (let key = components ! 0;
             value = str_join ''='' (drop 1 components)
         in condition_loop args (AList.update key value conditions)))"

text \<open>Lines 205-212 of \<open>handle_argquery\<close>: which resource policy the query gets.\<close>

definition argquery_resource_policy ::
    "('s, 'g, 'p) env \<Rightarrow> 's option \<Rightarrow> 'g \<Rightarrow> parsed_args \<Rightarrow> exn + 'p option" where
  "argquery_resource_policy e session graph a =
     (if grab_resource_policy a then
        (if session = None then Inl (ValueError session_required)
         else (case pull_cached_resource_policy_by_arn e graph (resource a) None of
                 Inl x \<Rightarrow> Inl x
               | Inr p \<Rightarrow> Inr (Some p)))
      else if truthy (resource_policy_text a) then
        (case json_loads e (the (resource_policy_text a)) of
           Inl x \<Rightarrow> Inl x
         | Inr p \<Rightarrow> Inr (Some p))
      else Inr None)"

definition handle_argquery :: "('s, 'g, 'p) env \<Rightarrow> parsed_args \<Rightarrow> ('g, 'p) outcome_of_run" where
  "handle_argquery e a =
     (case grab_session e a of
        Inl x \<Rightarrow> ([], Inl x)
      | Inr session \<Rightarrow>
          (case get_existing_graph e session (account a) of
             Inl x \<Rightarrow> ([], Inl x)
           | Inr graph \<Rightarrow>
               (case (case condition a of
                        None \<Rightarrow> Some []
                      | Some args \<Rightarrow> condition_loop args []) of
                  None \<Rightarrow> ([Print format_not_matched], Inr 64)
                | Some conditions \<Rightarrow>
                    (case argquery_resource_policy e session graph a of
                       Inl x \<Rightarrow> ([], Inl x)
                     | Inr resource_policy \<Rightarrow>
                         run_and_return e
                           (Argquery graph (principal a) (action a) (resource a) conditions
                              (preset a) (skip_admin a) resource_policy (resource_owner a)
                              (include_unauthorized a))))))"

definition handle_repl :: "('s, 'g, 'p) env \<Rightarrow> parsed_args \<Rightarrow> ('g, 'p) outcome_of_run" where
  "handle_repl e a =
     (case grab_session e a of
        Inl x \<Rightarrow> ([], Inl x)
      | Inr session \<Rightarrow>
          (case get_existing_graph e session (account a) of
             Inl x \<Rightarrow> ([], Inl x)
           | Inr graph \<Rightarrow> run_and_return e (Begin_repl graph)))"

text \<open>\<open>graph.metadata['account_id']\<close> raises \<open>KeyError\<close> when the key is missing.\<close>

definition account_id_of :: "('s, 'g, 'p) env \<Rightarrow> 'g \<Rightarrow> exn + string" where
  "account_id_of e graph =
     (case metadata e graph ''account_id'' of
        None \<Rightarrow> Inl (KeyError ''account_id'')
      | Some i \<Rightarrow> Inr i)"

definition handle_visualization ::
    "('s, 'g, 'p) env \<Rightarrow> parsed_args \<Rightarrow> ('g, 'p) outcome_of_run" where
  "handle_visualization e a =
     (case grab_session e a of
        Inl x \<Rightarrow> ([], Inl x)
      | Inr session \<Rightarrow>
          (case get_existing_graph e session (account a) of
             Inl x \<Rightarrow> ([], Inl x)
           | Inr graph \<Rightarrow>
               (case account_id_of e graph of
                  Inl x \<Rightarrow> ([], Inl x)
                | Inr i \<Rightarrow>
                    (let filepath =
                           (if only_privesc a then ''./'' @ i @ ''-privesc-risks.'' @ filetype a
                            else ''./'' @ i @ ''.'' @ filetype a);
                         c = (if only_privesc a then Draw_privesc_paths graph filepath (filetype a)
                              else Handle_request graph filepath (filetype a))
                     in (case perform e c of
                           Some x \<Rightarrow> ([c], Inl x)
                         | None \<Rightarrow> ([c, Print (''Created file '' @ filepath)], Inr 0))))))"

definition handle_analysis :: "('s, 'g, 'p) env \<Rightarrow> parsed_args \<Rightarrow> ('g, 'p) outcome_of_run" where
  "handle_analysis e a =
     (case grab_session e a of
        Inl x \<Rightarrow> ([], Inl x)
      | Inr session \<Rightarrow>
          (case get_existing_graph e session (account a) of
             Inl x \<Rightarrow> ([], Inl x)
           | Inr graph \<Rightarrow> run_and_return e (Gen_findings_and_print graph (output_type a))))"

subsection \<open>\<open>main\<close>\<close>

text \<open>The command line as the top-level parser of lines 53-74 splits it: the options
  \<open>--profile\<close>, \<open>--debug\<close> and \<open>--account\<close> given before the subcommand, and the
  subcommand word with the words after it, if there is one. (A command line the top-level
  parser cannot split, or one that asks for help, has no such form: \<open>argparse\<close> ends the
  program on it.)\<close>

record command_line =
  given_profile :: "string option"
  given_debug :: bool
  given_account :: "string option"
  subcommand :: "(string \<times> string list) option"

text \<open>The names registered with \<open>add_parser\<close> in lines 77-121.\<close>

definition subcommand_names :: "string list" where
  "subcommand_names = [''graph'', ''query'', ''argquery'', ''repl'', ''visualize'', ''analysis'']"

text \<open>The namespace after the top-level options: \<open>picked_cmd\<close> is \<open>None\<close> (the subparsers
  are not required). The attributes that only a subcommand's parser sets do not exist yet;
  the record holds empty values for them, and no path reads them before they are set.\<close>

definition top_level_namespace :: "command_line \<Rightarrow> parsed_args" where
  "top_level_namespace cl =
     \<lparr>profile = given_profile cl, debug = given_debug cl, account = given_account cl,
      picked_cmd = None, query = [], skip_admin = False, grab_resource_policy = False,
      resource_policy_text = None, resource_owner = None, include_unauthorized = False,
      principal = None, action = None, resource = None, condition = None, preset = None,
      only_privesc = False, filetype = [], output_type = []\<rparr>"

text \<open>\<open>argument_parser.parse_args()\<close> of line 125. Without a subcommand word the namespace
  of the top-level options is returned. A subcommand word must be one of the registered
  names: for any other, \<open>argparse\<close> reports an invalid choice and raises \<open>SystemExit(2)\<close>.
  For a registered name it stores the name under \<open>picked_cmd\<close> and lets the subcommand's
  parser read the remaining words into the namespace. The arguments of those parsers are
  declared by \<open>provide_arguments\<close> of the cli modules, which are collaborators: \<open>sub\<close> is
  that reading (it may end the program too).\<close>

definition parse_args ::
    "(string \<Rightarrow> string list \<Rightarrow> parsed_args \<Rightarrow> exn + parsed_args) \<Rightarrow> command_line
      \<Rightarrow> exn + parsed_args" where
  "parse_args sub cl =
     (case subcommand cl of
        None \<Rightarrow> Inr (top_level_namespace cl)
      | Some (name, rest) \<Rightarrow>
          (if name \<in> set subcommand_names
           then sub name rest ((top_level_namespace cl)\<lparr>picked_cmd := Some name\<rparr>)
           else Inl (SystemExit 2)))"

text \<open>\<open>main\<close>: the command line is parsed (line 125), then the subcommand is dispatched
  (lines 148-161). The logging set-up of lines 127-147 changes no result. The graph
  subcommand is \<open>graphing_cli.process_arguments\<close>, a collaborator.\<close>

definition main ::
    "('s, 'g, 'p) env \<Rightarrow> (string \<Rightarrow> string list \<Rightarrow> parsed_args \<Rightarrow> exn + parsed_args)
      \<Rightarrow> command_line \<Rightarrow> ('g, 'p) outcome_of_run" where
  "main e sub cl =
     (case parse_args sub cl of
        Inl x \<Rightarrow> ([], Inl x)
      | Inr parsed \<Rightarrow>
          (if picked_cmd parsed = Some ''graph'' then ([], process_arguments e parsed)
           else if picked_cmd parsed = Some ''query'' then handle_query e parsed
           else if picked_cmd parsed = Some ''argquery'' then handle_argquery e parsed
           else if picked_cmd parsed = Some ''repl'' then handle_repl e parsed
           else if picked_cmd parsed = Some ''visualize'' then handle_visualization e parsed
           else if picked_cmd parsed = Some ''analysis'' then handle_analysis e parsed
           else ([], Inr 64)))"

subsection \<open>The condition arguments in the words of the specification\<close>

text \<open>The text of an argument before its first \<open>=\<close>, and everything after that \<open>=\<close>.\<close>

definition text_before_first_eq :: "string \<Rightarrow> string" where
  "text_before_first_eq arg = takeWhile (\<lambda>x. x \<noteq> CHR ''='') arg"

definition text_after_first_eq :: "string \<Rightarrow> string" where
  "text_after_first_eq arg = drop 1 (dropWhile (\<lambda>x. x \<noteq> CHR ''='') arg)"

text \<open>The value a key ends with when later arguments overwrite earlier ones: that of the
  last argument with this key.\<close>

definition later_wins :: "string list \<Rightarrow> string \<Rightarrow> string option" where
  "later_wins args k =
     (case filter (\<lambda>arg. text_before_first_eq arg = k) args of
        [] \<Rightarrow> None
      | x # xs \<Rightarrow> Some (text_after_first_eq (last (x # xs))))"

text \<open>Every argument contains an \<open>=\<close>.\<close>

definition well_formed :: "string list \<Rightarrow> bool" where
  "well_formed args = list_all (\<lambda>arg. CHR ''='' \<in> set arg) args"

text \<open>The condition arguments of an invocation: none when \<open>parsed_args.condition\<close> is
  \<open>None\<close>.\<close>

definition condition_args :: "parsed_args \<Rightarrow> string list" where
  "condition_args a = (case condition a of None \<Rightarrow> [] | Some args \<Rightarrow> args)"

subsection \<open>A sample run\<close>

text \<open>Collaborators that all succeed, and the arguments of an \<open>argquery\<close> invocation; the
  closed instances below are evaluated on them.\<close>

definition sample_env :: "(string, string, string) env" where
  "sample_env =
     \<lparr>get_session = (\<lambda>p. Inr ''session''),
      get_existing_graph = (\<lambda>s acct. Inr ''graph''),
      pull_cached_resource_policy_by_arn = (\<lambda>g arn q. Inr ''cached policy''),
      json_loads = (\<lambda>t. Inr t),
      metadata = (\<lambda>g. [''account_id'' \<mapsto> ''123456789012'']),
      process_arguments = (\<lambda>a. Inr 0),
      perform = (\<lambda>c. None)\<rparr>"

definition sample_args :: parsed_args where
  "sample_args =
     \<lparr>profile = None, debug = False, account = None, picked_cmd = None,
      query = ''who can do s3:GetObject with *'', skip_admin = False,
      grab_resource_policy = False, resource_policy_text = None, resource_owner = None,
      include_unauthorized = False, principal = Some ''user/alice'',
      action = Some ''s3:GetObject'', resource = Some ''*'',
      condition = Some [''aws:username=alice'', ''tag=a=b'', ''aws:username=bob''],
      preset = None, only_privesc = False, filetype = ''svg'', output_type = ''text''\<rparr>"

text \<open>A subcommand parser that fills in the sample arguments, whatever the remaining
  words are, and a command line with nothing but a subcommand word.\<close>

definition sample_subparser :: "string \<Rightarrow> string list \<Rightarrow> parsed_args \<Rightarrow> exn + parsed_args" where
  "sample_subparser name rest ns =
     Inr (sample_args\<lparr>profile := profile ns, debug := debug ns, account := account ns,
            picked_cmd := picked_cmd ns\<rparr>)"

definition sample_command_line :: "(string \<times> string list) option \<Rightarrow> command_line" where
  "sample_command_line sc =
     \<lparr>given_profile = None, given_debug = False, given_account = None, subcommand = sc\<rparr>"

section \<open>The authorization evaluation engine\<close>

text \<open>
  The engine (\<open>principalmapper.querying\<close>) is not among the sources: only the command line
  that calls it is. The definitions of this section follow sections 3 and 4.2 of the
  specification, step by step. What the specification leaves open is a parameter
  (\<open>semantics\<close>): how one context value compares with one expected value in each operator
  family, and how policy variables are substituted into a resource pattern.
\<close>

subsection \<open>Data model\<close>

text \<open>Modelled from the spec: the Effect of a Statement of section 3 (the policy model
  is missing from the sources).\<close>

datatype effect = Allow | Deny

text \<open>Modelled from the spec: the Action matcher, a set of action patterns or its
  negated NotAction form.\<close>

datatype action_matcher = Action "string list" | NotAction "string list"

text \<open>Modelled from the spec: the Resource matcher, a set of resource patterns or its
  negated NotResource form.\<close>

datatype resource_matcher = Resource "string list" | NotResource "string list"

text \<open>Modelled from the spec: the qualifier of a condition entry (section 4.2 step 7),
  for a context entry with several values.\<close>

datatype qualifier = ForAllValues | ForAnyValue

text \<open>Modelled from the spec: the operator families of step 7.\<close>

datatype family =
    StringEquality | StringPrefixLike | NumericComparison | DateComparison
  | BooleanMatch | IpRangeContainment | ArnEquality

text \<open>Modelled from the spec: an operator is a supported one (family, case-insensitive
  variant, negated variant) or an unrecognised one, kept by name.\<close>

datatype operator = Supported family bool bool | Unsupported string

text \<open>Modelled from the spec: a condition entry of step 7, \<open>(operator, key) -> expected
  values\<close>, with its optional qualifier.\<close>

record cond_entry =
  cond_operator :: operator
  cond_qualifier :: "qualifier option"
  cond_key :: string
  cond_values :: "string list"

text \<open>Modelled from the spec: the Statement: Effect, Action matcher, Resource matcher and
  the optional Condition block (empty when absent).\<close>

record statement =
  stmt_effect :: effect
  stmt_action :: action_matcher
  stmt_resource :: resource_matcher
  stmt_condition :: "cond_entry list"

text \<open>Modelled from the spec: a Policy of section 3, an identifier and an ordered set
  of Statements. The graph is an immutable snapshot, so where a principal or a group
  refers to a policy, the model holds the policy itself.\<close>

record policy =
  policy_id :: string
  policy_statements :: "statement list"

text \<open>Modelled from the spec: a Group, with the policies attached to it.\<close>

record group_rec =
  group_id :: string
  group_policies :: "policy list"

text \<open>Modelled from the spec: the kind of a Principal.\<close>

datatype principal_kind = User | Role

text \<open>Modelled from the spec: a Principal, with the attributes evaluation reads.\<close>

record principal_rec =
  arn :: string
  kind :: principal_kind
  attached_policies :: "policy list"
  inline_policies :: "policy list"
  permissions_boundary :: "policy option"
  group_memberships :: "group_rec list"
  trust_policy :: "policy option"

text \<open>Modelled from the spec: the condition context of section 6, a mapping from
  condition keys to one or more literal values.\<close>

type_synonym cond_context = "string \<Rightarrow> string list option"

text \<open>Modelled from the spec: the request of the contract \<open>evaluate(principal, action,
  resource, context, resource_policy?, resource_owner?)\<close>. A missing action or resource is
  \<open>None\<close>.\<close>

record request =
  req_principal :: principal_rec
  req_action :: "string option"
  req_resource :: "string option"
  req_context :: cond_context
  req_resource_policy :: "policy option"
  req_resource_owner :: "string option"

text \<open>Modelled from the spec: the outcome of a Decision (section 3).\<close>

datatype outcome = Decision_Allow | Decision_Deny | Decision_ImplicitDeny

text \<open>Modelled from the spec: the statement set a cited statement came from.\<close>

datatype source = Identity | Boundary | ResourcePolicy

text \<open>Modelled from the spec: the Decision of section 3. \<open>matched\<close> cites the statements
  that decided, each with the set it came from; \<open>not_evaluated\<close> lists the condition
  clauses whose operator is unsupported (section 7).\<close>

record decision =
  outcome :: outcome
  matched :: "(source \<times> statement) list"
  not_evaluated :: "cond_entry list"

text \<open>Modelled from the spec: the error taxonomy of section 7.\<close>

datatype error =
    PolicyParseError nat
  | InvalidRequestError
  | NotFoundError string
  | UnsupportedConditionOperatorError string

text \<open>Modelled from the spec: what section 4.2 leaves open. \<open>compare f v x\<close> says whether
  the context value \<open>v\<close> meets the expected value \<open>x\<close> in the family \<open>f\<close>;
  \<open>substitute p pattern\<close> is the resource pattern with its policy variables resolved for
  the requesting principal \<open>p\<close>.\<close>

record semantics =
  compare :: "family \<Rightarrow> string \<Rightarrow> string \<Rightarrow> bool"
  substitute :: "principal_rec \<Rightarrow> string \<Rightarrow> string"

subsection \<open>Matching\<close>

text \<open>Modelled from the spec: glob matching of step 5, \<open>*\<close> is any run of characters and
  \<open>?\<close> a single character.\<close>

fun glob_match :: "string \<Rightarrow> string \<Rightarrow> bool" where
  "glob_match [] s = (s = [])"
| "glob_match (p # ps) s =
     (if p = CHR ''*'' then
        (glob_match ps s \<or> (case s of [] \<Rightarrow> False | c # cs \<Rightarrow> glob_match (p # ps) cs))
      else (case s of
              [] \<Rightarrow> False
            | c # cs \<Rightarrow> (p = CHR ''?'' \<or> p = c) \<and> glob_match ps cs))"

text \<open>Modelled from the spec: case-insensitive comparison (steps 5 and 7) compares the
  lower-cased strings; only the ASCII letters have a case.\<close>

definition lower_char :: "char \<Rightarrow> char" where
  "lower_char c =
     (let n = (of_char c :: nat) in if 65 \<le> n \<and> n \<le> 90 then char_of (n + 32) else c)"

text \<open>Modelled from the spec: a string in lower case.\<close>

definition lower :: "string \<Rightarrow> string" where
  "lower s = map lower_char s"

text \<open>Modelled from the spec: action matching of step 5, case-insensitive, NotAction
  inverts the matched set.\<close>

definition action_matches :: "string \<Rightarrow> action_matcher \<Rightarrow> bool" where
  "action_matches a m =
     (case m of
        Action ps \<Rightarrow> list_ex (\<lambda>p. glob_match (lower p) (lower a)) ps
      | NotAction ps \<Rightarrow> \<not> list_ex (\<lambda>p. glob_match (lower p) (lower a)) ps)"

text \<open>Modelled from the spec: resource matching of step 6, the same wildcards on the full
  resource identifier after policy-variable substitution, NotResource inverts.\<close>

definition resource_matches ::
    "semantics \<Rightarrow> principal_rec \<Rightarrow> string \<Rightarrow> resource_matcher \<Rightarrow> bool" where
  "resource_matches sem p r m =
     (case m of
        Resource ps \<Rightarrow> list_ex (\<lambda>pat. glob_match (substitute sem p pat) r) ps
      | NotResource ps \<Rightarrow> \<not> list_ex (\<lambda>pat. glob_match (substitute sem p pat) r) ps)"

text \<open>Modelled from the spec: one context value against the expected values of a supported
  operator (step 7): it meets the operator when it compares with one of the expected
  values, the case-insensitive variant lower-cases both sides, the negated variant
  inverts.\<close>

definition value_satisfies ::
    "semantics \<Rightarrow> family \<Rightarrow> bool \<Rightarrow> bool \<Rightarrow> string list \<Rightarrow> string \<Rightarrow> bool" where
  "value_satisfies sem f ignore_case negated expected v =
     (let hit = list_ex (\<lambda>x. if ignore_case then compare sem f (lower v) (lower x)
                              else compare sem f v x) expected
      in if negated then \<not> hit else hit)"

text \<open>Modelled from the spec: condition evaluation of step 7. A key absent from the context
  makes the condition false, whatever the operator. With the key present, an unsupported
  operator is \<open>UnsupportedConditionOperatorError\<close>; ForAllValues asks every context value
  to meet the operator, ForAnyValue (and no qualifier) asks one of them to.\<close>

definition eval_condition :: "semantics \<Rightarrow> cond_context \<Rightarrow> cond_entry \<Rightarrow> error + bool" where
  "eval_condition sem ctx c =
     (case ctx (cond_key c) of
        None \<Rightarrow> Inr False
      | Some vs \<Rightarrow>
          (case cond_operator c of
             Unsupported name \<Rightarrow> Inl (UnsupportedConditionOperatorError name)
           | Supported f ignore_case negated \<Rightarrow>
               (case cond_qualifier c of
                  Some ForAllValues \<Rightarrow>
                    Inr (list_all (value_satisfies sem f ignore_case negated (cond_values c)) vs)
                | _ \<Rightarrow>
                    Inr (list_ex (value_satisfies sem f ignore_case negated (cond_values c)) vs))))"

text \<open>Modelled from the spec: the error of an unsupported operator is recoverable
  (section 7): the clause counts as not matching.\<close>

definition condition_holds :: "semantics \<Rightarrow> cond_context \<Rightarrow> cond_entry \<Rightarrow> bool" where
  "condition_holds sem ctx c =
     (case eval_condition sem ctx c of Inl err \<Rightarrow> False | Inr b \<Rightarrow> b)"

text \<open>Modelled from the spec: a statement matches a request when its Action, its Resource
  and every entry of its Condition block match (step 4a).\<close>

definition statement_matches ::
    "semantics \<Rightarrow> principal_rec \<Rightarrow> string \<Rightarrow> string \<Rightarrow> cond_context \<Rightarrow> statement \<Rightarrow> bool" where
  "statement_matches sem p a r ctx s =
     (action_matches a (stmt_action s) \<and> resource_matches sem p r (stmt_resource s)
      \<and> list_all (condition_holds sem ctx) (stmt_condition s))"

subsection \<open>Evaluation\<close>

text \<open>Modelled from the spec: step 1, the set S_identity: the statements of the inline
  policies, of the attached managed policies and, for a User, of the policies attached to
  each of its groups.\<close>

definition identity_statements :: "principal_rec \<Rightarrow> statement list" where
  "identity_statements p =
     concat (map policy_statements (inline_policies p))
     @ concat (map policy_statements (attached_policies p))
     @ (if kind p = User
        then concat (map (\<lambda>g. concat (map policy_statements (group_policies g)))
                       (group_memberships p))
        else [])"

text \<open>Modelled from the spec: the first statement of a candidate list that has the given
  effect and matches the request ("first match wins at each stage").\<close>

definition first_match ::
    "semantics \<Rightarrow> principal_rec \<Rightarrow> string \<Rightarrow> string \<Rightarrow> cond_context \<Rightarrow> effect
      \<Rightarrow> (source \<times> statement) list \<Rightarrow> (source \<times> statement) option" where
  "first_match sem p a r ctx eff cands =
     find (\<lambda>c. stmt_effect (snd c) = eff \<and> statement_matches sem p a r ctx (snd c)) cands"

text \<open>Modelled from the spec: the clauses the rationale reports as not evaluated
  (section 7): those whose evaluation ended in \<open>UnsupportedConditionOperatorError\<close>.\<close>

definition clauses_not_evaluated :: "semantics \<Rightarrow> cond_context \<Rightarrow> statement list \<Rightarrow> cond_entry list" where
  "clauses_not_evaluated sem ctx ss =
     filter (\<lambda>c. isl (eval_condition sem ctx c)) (concat (map stmt_condition ss))"

text \<open>Modelled from the spec: the candidate statements, each tagged with its set, in the
  order S_identity, S_boundary, S_resource (steps 1 to 3).\<close>

definition tagged :: "source \<Rightarrow> statement list option \<Rightarrow> (source \<times> statement) list" where
  "tagged src ss = (case ss of None \<Rightarrow> [] | Some l \<Rightarrow> map (Pair src) l)"

text \<open>Modelled from the spec: the evaluation order of step 4 over the three statement sets
  (the boundary and the resource policy are optional).
  (a) a matching explicit Deny in any set decides Deny and is cited;
  (b) otherwise an Allow of S_identity must match and, if a boundary is present, an Allow
      of S_boundary too;
  (c) if (b) fails and a supplied resource policy has a matching Allow, that is Allow;
  (d) otherwise ImplicitDeny.
  The resource owner only classifies the resource as same-account or cross-account; the
  specification gives it no effect on the outcome.\<close>

definition combine ::
    "semantics \<Rightarrow> principal_rec \<Rightarrow> string \<Rightarrow> string \<Rightarrow> cond_context
      \<Rightarrow> statement list \<Rightarrow> statement list option \<Rightarrow> statement list option \<Rightarrow> decision" where
  "combine sem p a r ctx S_identity S_boundary S_resource =
     (let ident = tagged Identity (Some S_identity);
          bnd = tagged Boundary S_boundary;
          res = tagged ResourcePolicy S_resource;
          notes = clauses_not_evaluated sem ctx (map snd (ident @ bnd @ res))
      in case first_match sem p a r ctx Deny (ident @ bnd @ res) of
           Some d \<Rightarrow> \<lparr>outcome = Decision_Deny, matched = [d], not_evaluated = notes\<rparr>
         | None \<Rightarrow>
             (case (case first_match sem p a r ctx Allow ident of
                      None \<Rightarrow> None
                    | Some i \<Rightarrow>
                        (case S_boundary of
                           None \<Rightarrow> Some [i]
                         | Some b \<Rightarrow>
                             (case first_match sem p a r ctx Allow bnd of
                                None \<Rightarrow> None
                              | Some j \<Rightarrow> Some [i, j]))) of
                Some cited \<Rightarrow>
                  \<lparr>outcome = Decision_Allow, matched = cited, not_evaluated = notes\<rparr>
              | None \<Rightarrow>
                  (case first_match sem p a r ctx Allow res of
                     Some x \<Rightarrow>
                       \<lparr>outcome = Decision_Allow, matched = [x], not_evaluated = notes\<rparr>
                   | None \<Rightarrow>
                       \<lparr>outcome = Decision_ImplicitDeny, matched = [],
                        not_evaluated = notes\<rparr>)))"

text \<open>Modelled from the spec: the contract of section 4.2 for given boundary and resource
  statement sets. A request without action or resource is \<open>InvalidRequestError\<close>; every
  other request resolves to a Decision.\<close>

definition evaluate_sets ::
    "semantics \<Rightarrow> request \<Rightarrow> statement list option \<Rightarrow> statement list option
      \<Rightarrow> error + decision" where
  "evaluate_sets sem req S_boundary S_resource =
     (case req_action req of
        None \<Rightarrow> Inl InvalidRequestError
      | Some a \<Rightarrow>
          (case req_resource req of
             None \<Rightarrow> Inl InvalidRequestError
           | Some r \<Rightarrow>
               Inr (combine sem (req_principal req) a r (req_context req)
                      (identity_statements (req_principal req)) S_boundary S_resource)))"

text \<open>Modelled from the spec: \<open>evaluate\<close> of section 4.2: S_boundary is gathered from the
  permissions boundary if one is attached (step 2), S_resource from the resource policy if
  one was supplied (step 3).\<close>

definition evaluate :: "semantics \<Rightarrow> request \<Rightarrow> error + decision" where
  "evaluate sem req =
     evaluate_sets sem req
       (map_option policy_statements (permissions_boundary (req_principal req)))
       (map_option policy_statements (req_resource_policy req))"

text \<open>Modelled from the spec: what the testable property "boundary narrowing" compares
  with: the same request decided without the boundary, and decided by the identity
  policies alone (no boundary, no resource policy).\<close>

definition evaluate_without_boundary :: "semantics \<Rightarrow> request \<Rightarrow> error + decision" where
  "evaluate_without_boundary sem req =
     evaluate_sets sem req None (map_option policy_statements (req_resource_policy req))"

text \<open>Modelled from the spec: the request decided by the identity policies alone.\<close>

definition evaluate_identity_alone :: "semantics \<Rightarrow> request \<Rightarrow> error + decision" where
  "evaluate_identity_alone sem req = evaluate_sets sem req None None"

text \<open>Modelled from the spec: "a statement matches the request", for a request as the
  caller supplies it: the candidate statements of a request, and whether one of them
  matches the request's action, resource and conditions.\<close>

definition candidates :: "request \<Rightarrow> (source \<times> statement) list" where
  "candidates req =
     tagged Identity (Some (identity_statements (req_principal req)))
     @ tagged Boundary (map_option policy_statements (permissions_boundary (req_principal req)))
     @ tagged ResourcePolicy (map_option policy_statements (req_resource_policy req))"

text \<open>Modelled from the spec: a statement matches the request's action, resource and
  conditions; nothing matches a request without action or resource.\<close>

definition matches_request :: "semantics \<Rightarrow> request \<Rightarrow> statement \<Rightarrow> bool" where
  "matches_request sem req s =
     (case req_action req of
        None \<Rightarrow> False
      | Some a \<Rightarrow>
          (case req_resource req of
             None \<Rightarrow> False
           | Some r \<Rightarrow> statement_matches sem (req_principal req) a r (req_context req) s))"

subsection \<open>A sample account\<close>

text \<open>Modelled from the spec: an instance of what section 4.2 leaves open, for the closed
  instances below: values compare by equality, and patterns have no policy variables.\<close>

definition sample_semantics :: semantics where
  "sample_semantics = \<lparr>compare = (\<lambda>f v x. v = x), substitute = (\<lambda>p pat. pat)\<rparr>"

text \<open>Modelled from the spec: the condition of the last scenario of section 8,
  \<open>aws:MultiFactorAuthPresent = false\<close>.\<close>

definition mfa_absent :: cond_entry where
  "mfa_absent =
     \<lparr>cond_operator = Supported BooleanMatch False False, cond_qualifier = None,
      cond_key = ''aws:MultiFactorAuthPresent'', cond_values = [''false'']\<rparr>"

text \<open>Modelled from the spec: sample statements: an unconditional Allow of every S3 action
  on every resource, an unconditional Deny of \<open>s3:DeleteObject\<close>, and a Deny of every S3
  action guarded by the MFA condition.\<close>

definition allow_s3 :: statement where
  "allow_s3 =
     \<lparr>stmt_effect = Allow, stmt_action = Action [''s3:*''], stmt_resource = Resource [''*''],
      stmt_condition = []\<rparr>"

text \<open>Modelled from the spec: the sample Deny of \<open>s3:DeleteObject\<close>.\<close>

definition deny_delete :: statement where
  "deny_delete =
     \<lparr>stmt_effect = Deny, stmt_action = Action [''s3:DeleteObject''],
      stmt_resource = Resource [''*''], stmt_condition = []\<rparr>"

text \<open>Modelled from the spec: the sample Deny guarded by the MFA condition.\<close>

definition deny_s3_without_mfa :: statement where
  "deny_s3_without_mfa =
     \<lparr>stmt_effect = Deny, stmt_action = Action [''s3:*''], stmt_resource = Resource [''*''],
      stmt_condition = [mfa_absent]\<rparr>"

text \<open>Modelled from the spec: a sample user whose inline policy is the given statement
  list, with an optional permissions boundary, and a request of that user with an empty
  context.\<close>

definition sample_user :: "statement list \<Rightarrow> statement list option \<Rightarrow> principal_rec" where
  "sample_user inline bnd =
     \<lparr>arn = ''arn:aws:iam::123456789012:user/alice'', kind = User, attached_policies = [],
      inline_policies = [\<lparr>policy_id = ''inline'', policy_statements = inline\<rparr>],
      permissions_boundary =
        map_option (\<lambda>ss. \<lparr>policy_id = ''boundary'', policy_statements = ss\<rparr>) bnd,
      group_memberships = [], trust_policy = None\<rparr>"

text \<open>Modelled from the spec: a request of a principal for an action on a resource, with
  an empty context and no resource policy.\<close>

definition sample_request :: "principal_rec \<Rightarrow> string \<Rightarrow> string \<Rightarrow> request" where
  "sample_request p a r =
     \<lparr>req_principal = p, req_action = Some a, req_resource = Some r,
      req_context = (\<lambda>k. None), req_resource_policy = None, req_resource_owner = None\<rparr>"

section \<open>Properties of the command line\<close>

lemma str_split_not_Nil: "str_split sep s \<noteq> []"
  by (induction s) (auto split: list.splits)

lemma str_split_length: "length (str_split c s) = Suc (length (filter (\<lambda>x. x = c) s))"
  by (induction s) (auto split: list.splits simp: str_split_not_Nil)

lemma str_split_short: "(length (str_split c s) < 2) = (c \<notin> set s)"
proof -
  have "(length (filter (\<lambda>x. x = c) s) = 0) = (c \<notin> set s)"
    by (induction s) auto
  then show ?thesis by (auto simp: str_split_length)
qed

lemma str_split_first: "c \<notin> set k \<Longrightarrow> str_split c (k @ c # v) = k # str_split c v"
  by (induction k) auto

lemma str_join_split: "str_join [c] (str_split c s) = s"
proof (induction s)
  case Nil
  then show ?case by simp
next
  case (Cons x xs)
  show ?case
  proof (cases "x = c")
    case True
    then show ?thesis using Cons
      by (cases "str_split c xs") (auto simp: str_split_not_Nil)
  next
    case False
    then show ?thesis using Cons
      apply (cases "str_split c xs")
       apply (simp add: str_split_not_Nil)
      subgoal for w ws by (cases ws) auto
      done
  qed
qed

lemma split_at_first:
  assumes "c \<notin> set k"
  shows "str_split c (k @ c # v) ! 0 = k \<and> str_join [c] (drop 1 (str_split c (k @ c # v))) = v"
  using str_split_first [OF assms, of v] str_join_split [of c v] by simp

lemma arg_decompose:
  "c \<in> set arg \<Longrightarrow>
     arg = takeWhile (\<lambda>x. x \<noteq> c) arg @ c # drop 1 (dropWhile (\<lambda>x. x \<noteq> c) arg)
     \<and> c \<notin> set (takeWhile (\<lambda>x. x \<noteq> c) arg)"
  by (induction arg) auto

lemma components_key_value:
  assumes "CHR ''='' \<in> set arg"
  shows "str_split (CHR ''='') arg ! 0 = text_before_first_eq arg
       \<and> str_join ''='' (drop 1 (str_split (CHR ''='') arg)) = text_after_first_eq arg"
proof -
  let ?k = "text_before_first_eq arg" and ?v = "text_after_first_eq arg"
  have "arg = ?k @ CHR ''='' # ?v" and "CHR ''='' \<notin> set ?k"
    using arg_decompose [OF assms] unfolding text_before_first_eq_def text_after_first_eq_def
    by simp_all
  then show ?thesis using split_at_first [of "CHR ''=''" ?k ?v] by simp
qed

lemma condition_loop_step:
  "CHR ''='' \<in> set arg \<Longrightarrow>
     condition_loop (arg # args) conds =
       condition_loop args
         (AList.update (text_before_first_eq arg) (text_after_first_eq arg) conds)"
  using components_key_value [of arg] str_split_short [of "CHR ''=''" arg]
  by (simp add: Let_def)

lemma condition_loop_stop:
  "CHR ''='' \<notin> set arg \<Longrightarrow> condition_loop (arg # args) conds = None"
  using str_split_short [of "CHR ''=''" arg] by (simp add: Let_def)

lemma condition_loop_None:
  "(condition_loop args conds = None) = (\<not> well_formed args)"
proof (induction args arbitrary: conds)
  case Nil
  then show ?case by (simp add: well_formed_def)
next
  case (Cons arg args)
  show ?case
  proof (cases "CHR ''='' \<in> set arg")
    case True
    then show ?thesis
      using Cons [of "AList.update (text_before_first_eq arg) (text_after_first_eq arg) conds"]
      by (simp add: condition_loop_step well_formed_def del: condition_loop.simps)
  next
    case False
    then show ?thesis
      by (simp add: condition_loop_stop well_formed_def del: condition_loop.simps)
  qed
qed

lemma later_wins_Cons:
  "later_wins (arg # args) k =
     (case later_wins args k of
        Some v \<Rightarrow> Some v
      | None \<Rightarrow> if text_before_first_eq arg = k then Some (text_after_first_eq arg) else None)"
  by (auto simp: later_wins_def split: list.splits)

lemma condition_loop_result:
  assumes "well_formed args"
  shows "\<exists>cs. condition_loop args conds = Some cs
           \<and> (\<forall>k. map_of cs k = (case later_wins args k of None \<Rightarrow> map_of conds k | Some v \<Rightarrow> Some v))
           \<and> (distinct (map fst conds) \<longrightarrow> distinct (map fst cs))"
  using assms
proof (induction args arbitrary: conds)
  case Nil
  then show ?case by (simp add: later_wins_def)
next
  case (Cons arg args)
  let ?c = "AList.update (text_before_first_eq arg) (text_after_first_eq arg) conds"
  from Cons.prems have wf: "CHR ''='' \<in> set arg" "well_formed args"
    by (simp_all add: well_formed_def)
  from Cons.IH [OF wf(2), of ?c] obtain cs where cs:
    "condition_loop args ?c = Some cs"
    "\<forall>k. map_of cs k = (case later_wins args k of None \<Rightarrow> map_of ?c k | Some v \<Rightarrow> Some v)"
    "distinct (map fst ?c) \<longrightarrow> distinct (map fst cs)"
    by blast
  have "condition_loop (arg # args) conds = Some cs"
    using cs(1) condition_loop_step [OF wf(1)] by (simp del: condition_loop.simps)
  moreover have "\<forall>k. map_of cs k =
      (case later_wins (arg # args) k of None \<Rightarrow> map_of conds k | Some v \<Rightarrow> Some v)"
    using cs(2) by (auto simp: later_wins_Cons update_conv' split: option.splits)
  moreover have "distinct (map fst conds) \<longrightarrow> distinct (map fst cs)"
    using cs(3) by (simp add: distinct_update)
  ultimately show ?case by blast
qed


lemma well_formed_iff: "well_formed args = (\<forall>arg\<in>set args. CHR ''='' \<in> set arg)"
  by (simp add: well_formed_def list_all_iff)

lemma handle_argquery_format_error:
  assumes "grab_session e a = Inr session"
      and "get_existing_graph e session (account a) = Inr graph"
      and "\<not> well_formed (condition_args a)"
  shows "handle_argquery e a = ([Print format_not_matched], Inr 64)"
proof -
  obtain args where args: "condition a = Some args"
    using assms(3) by (cases "condition a") (auto simp: condition_args_def well_formed_def)
  then have "condition_loop args [] = None"
    using assms(3) condition_loop_None [of args "[]"] by (simp add: condition_args_def)
  then show ?thesis
    using assms(1,2) args by (simp add: handle_argquery_def)
qed

lemma handle_argquery_after_loop:
  assumes "grab_session e a = Inr session"
      and "get_existing_graph e session (account a) = Inr graph"
      and "condition_loop (condition_args a) [] = Some conditions"
  shows "handle_argquery e a =
     (case argquery_resource_policy e session graph a of
        Inl x \<Rightarrow> ([], Inl x)
      | Inr resource_policy \<Rightarrow>
          run_and_return e
            (Argquery graph (principal a) (action a) (resource a) conditions (preset a)
               (skip_admin a) resource_policy (resource_owner a) (include_unauthorized a)))"
  using assms by (cases "condition a") (auto simp: handle_argquery_def condition_args_def)

lemma later_wins_start:
  assumes "well_formed args"
  shows "\<exists>cs. condition_loop args [] = Some cs \<and> distinct (map fst cs)
           \<and> (\<forall>k. map_of cs k = later_wins args k)"
proof -
  obtain cs where cs: "condition_loop args [] = Some cs"
      "\<forall>k. map_of cs k = (case later_wins args k of None \<Rightarrow> map_of [] k | Some v \<Rightarrow> Some v)"
      "distinct (map fst ([] :: (string \<times> string) list)) \<longrightarrow> distinct (map fst cs)"
    using condition_loop_result [OF assms, of "[]"] by blast
  have "\<forall>k. map_of cs k = later_wins args k"
    using cs(2) by (auto split: option.splits)
  then show ?thesis using cs(1,3) by simp
qed

text \<open>
  C8. The argquery handler splits each condition argument at its first \<open>=\<close>: the key is the
  text before it, the value everything after it, further \<open>=\<close> characters included. Once
  the session and the graph are loaded: if some argument has no \<open>=\<close>, the handler prints
  the format message and returns 64, and no query is executed; if every argument has one,
  the loop ends with a dictionary that holds each key once, with the value of the last
  argument that names the key, and this is the dictionary a query is called with.
\<close>

theorem condition_arguments_parsed:
  assumes "grab_session e a = Inr session"
      and "get_existing_graph e session (account a) = Inr graph"
  shows "(CHR ''='' \<notin> set k \<longrightarrow>
            str_split (CHR ''='') (k @ ''='' @ v) ! 0 = k
            \<and> str_join ''='' (drop 1 (str_split (CHR ''='') (k @ ''='' @ v))) = v)
       \<and> ((\<exists>arg\<in>set (condition_args a). CHR ''='' \<notin> set arg) \<longrightarrow>
            handle_argquery e a = ([Print format_not_matched], Inr 64))
       \<and> ((\<forall>arg\<in>set (condition_args a). CHR ''='' \<in> set arg) \<longrightarrow>
            (\<exists>conditions.
               condition_loop (condition_args a) [] = Some conditions
               \<and> distinct (map fst conditions)
               \<and> (\<forall>key. map_of conditions key = later_wins (condition_args a) key)
               \<and> (fst (handle_argquery e a) = []
                  \<or> (\<exists>resource_policy. fst (handle_argquery e a) =
                        [Argquery graph (principal a) (action a) (resource a) conditions
                           (preset a) (skip_admin a) resource_policy (resource_owner a)
                           (include_unauthorized a)]))))"
proof (intro conjI impI)
  assume "CHR ''='' \<notin> set k"
  then show "str_split (CHR ''='') (k @ ''='' @ v) ! 0 = k"
    and "str_join ''='' (drop 1 (str_split (CHR ''='') (k @ ''='' @ v))) = v"
    using split_at_first [of "CHR ''=''" k v] by simp_all
next
  assume "\<exists>arg\<in>set (condition_args a). CHR ''='' \<notin> set arg"
  then have "\<not> well_formed (condition_args a)" by (simp add: well_formed_iff)
  then show "handle_argquery e a = ([Print format_not_matched], Inr 64)"
    using handle_argquery_format_error [OF assms] by simp
next
  assume "\<forall>arg\<in>set (condition_args a). CHR ''='' \<in> set arg"
  then have wf: "well_formed (condition_args a)" by (simp add: well_formed_iff)
  obtain cs where cs: "condition_loop (condition_args a) [] = Some cs"
      "distinct (map fst cs)" "\<forall>k. map_of cs k = later_wins (condition_args a) k"
    using later_wins_start [OF wf] by blast
  have "fst (handle_argquery e a) = []
      \<or> (\<exists>resource_policy. fst (handle_argquery e a) =
            [Argquery graph (principal a) (action a) (resource a) cs (preset a) (skip_admin a)
               resource_policy (resource_owner a) (include_unauthorized a)])"
    using handle_argquery_after_loop [OF assms cs(1)]
    by (auto simp: run_and_return_def split: sum.splits option.splits)
  then show "\<exists>conditions.
               condition_loop (condition_args a) [] = Some conditions
               \<and> distinct (map fst conditions)
               \<and> (\<forall>key. map_of conditions key = later_wins (condition_args a) key)
               \<and> (fst (handle_argquery e a) = []
                  \<or> (\<exists>resource_policy. fst (handle_argquery e a) =
                        [Argquery graph (principal a) (action a) (resource a) conditions
                           (preset a) (skip_admin a) resource_policy (resource_owner a)
                           (include_unauthorized a)]))"
    using cs by blast
qed

lemma sample_session: "grab_session sample_env (sample_args\<lparr>condition := c\<rparr>) = Inr (Some ''session'')"
  by (simp add: grab_session_def sample_env_def sample_args_def)

lemma sample_graph:
  "get_existing_graph sample_env s acct = Inr ''graph''"
  by (simp add: sample_env_def)

theorem condition_arguments_parsed_witness:
  "str_split (CHR ''='') ''tag=a=b'' ! 0 = ''tag''
   \<and> str_join ''='' (drop 1 (str_split (CHR ''='') ''tag=a=b'')) = ''a=b''
   \<and> handle_argquery sample_env (sample_args\<lparr>condition := Some [''aws:username=alice'', ''novalue'']\<rparr>)
       = ([Print format_not_matched], Inr 64)
   \<and> condition_loop [''aws:username=alice'', ''tag=a=b'', ''aws:username=bob''] []
       = Some [(''aws:username'', ''bob''), (''tag'', ''a=b'')]
   \<and> map_of [(''aws:username'', ''bob''), (''tag'', ''a=b'')] ''aws:username''
       = later_wins [''aws:username=alice'', ''tag=a=b'', ''aws:username=bob''] ''aws:username''"
proof -
  let ?bad = "sample_args\<lparr>condition := Some [''aws:username=alice'', ''novalue'']\<rparr>"
  let ?good = "sample_args\<lparr>condition := Some [''aws:username=alice'', ''tag=a=b'', ''aws:username=bob'']\<rparr>"
  have 1: "str_split (CHR ''='') ''tag=a=b'' ! 0 = ''tag''
      \<and> str_join ''='' (drop 1 (str_split (CHR ''='') ''tag=a=b'')) = ''a=b''"
    using condition_arguments_parsed [OF sample_session sample_graph, where k = "''tag''" and v = "''a=b''"]
    by simp
  have 2: "handle_argquery sample_env ?bad = ([Print format_not_matched], Inr 64)"
    using condition_arguments_parsed
      [OF sample_session [of "Some [''aws:username=alice'', ''novalue'']"] sample_graph]
    by (simp add: condition_args_def)
  have 3: "condition_loop [''aws:username=alice'', ''tag=a=b'', ''aws:username=bob''] []
       = Some [(''aws:username'', ''bob''), (''tag'', ''a=b'')]"
    by (simp add: Let_def)
  have 4: "map_of [(''aws:username'', ''bob''), (''tag'', ''a=b'')] ''aws:username''
       = later_wins [''aws:username=alice'', ''tag=a=b'', ''aws:username=bob''] ''aws:username''"
  proof -
    let ?L = "[''aws:username=alice'', ''tag=a=b'', ''aws:username=bob'']"
    have "\<forall>arg\<in>set (condition_args ?good). CHR ''='' \<in> set arg"
      by (simp add: condition_args_def)
    then obtain cs where "condition_loop (condition_args ?good) [] = Some cs"
        and "\<forall>key. map_of cs key = later_wins (condition_args ?good) key"
      using condition_arguments_parsed
        [OF sample_session [of "Some ?L"] sample_graph, where k = "[]" and v = "[]"]
      by blast
    then show ?thesis using 3 by (simp add: condition_args_def)
  qed
  show ?thesis using 1 2 3 4 by simp
qed

subsection \<open>The call of the query engine\<close>

text \<open>
  C7 (as amended). When the session and the graph load and every condition argument has
  an \<open>=\<close>, and the resource-policy step of lines 205-212 does not raise, the argquery
  handler makes exactly one call, \<open>query_actions.argquery\<close>, with the graph and then, in
  this order: the principal, the action, the resource, the condition dictionary the loop
  built (each key with the value of the last argument that names it), the preset, the
  skip-admin flag, the resource policy, the resource owner and the include-unauthorized
  flag. The resource policy is the one \<open>pull_cached_resource_policy_by_arn\<close> returns for
  the graph's policies and the resource when the grab-resource-policy flag is set (and
  there is a session); without the flag it is what \<open>json.loads\<close> makes of the resource
  policy text when that text is given and not empty, and none otherwise.
\<close>

theorem argquery_call_arguments:
  assumes "grab_session e a = Inr session"
      and "get_existing_graph e session (account a) = Inr graph"
      and "\<forall>arg\<in>set (condition_args a). CHR ''='' \<in> set arg"
  shows "\<exists>conditions.
           condition_loop (condition_args a) [] = Some conditions
           \<and> (\<forall>key. map_of conditions key = later_wins (condition_args a) key)
           \<and> (grab_resource_policy a \<and> session \<noteq> None
                \<and> pull_cached_resource_policy_by_arn e graph (resource a) None = Inr p \<longrightarrow>
                fst (handle_argquery e a) =
                  [Argquery graph (principal a) (action a) (resource a) conditions (preset a)
                     (skip_admin a) (Some p) (resource_owner a) (include_unauthorized a)])
           \<and> (\<not> grab_resource_policy a \<and> resource_policy_text a = Some t \<and> t \<noteq> []
                \<and> json_loads e t = Inr p \<longrightarrow>
                fst (handle_argquery e a) =
                  [Argquery graph (principal a) (action a) (resource a) conditions (preset a)
                     (skip_admin a) (Some p) (resource_owner a) (include_unauthorized a)])
           \<and> (\<not> grab_resource_policy a
                \<and> (resource_policy_text a = None \<or> resource_policy_text a = Some []) \<longrightarrow>
                fst (handle_argquery e a) =
                  [Argquery graph (principal a) (action a) (resource a) conditions (preset a)
                     (skip_admin a) None (resource_owner a) (include_unauthorized a)])"
proof -
  have wf: "well_formed (condition_args a)"
    using assms(3) by (simp add: well_formed_iff)
  obtain cs where cs: "condition_loop (condition_args a) [] = Some cs"
      "\<forall>k. map_of cs k = later_wins (condition_args a) k"
    using later_wins_start [OF wf] by blast
  note h = handle_argquery_after_loop [OF assms(1,2) cs(1)]
  have 1: "fst (handle_argquery e a) =
      [Argquery graph (principal a) (action a) (resource a) cs (preset a) (skip_admin a)
         (Some p) (resource_owner a) (include_unauthorized a)]"
    if "grab_resource_policy a \<and> session \<noteq> None
        \<and> pull_cached_resource_policy_by_arn e graph (resource a) None = Inr p"
    using that h
    by (simp add: argquery_resource_policy_def run_and_return_def split: option.splits)
  have 2: "fst (handle_argquery e a) =
      [Argquery graph (principal a) (action a) (resource a) cs (preset a) (skip_admin a)
         (Some p) (resource_owner a) (include_unauthorized a)]"
    if "\<not> grab_resource_policy a \<and> resource_policy_text a = Some t \<and> t \<noteq> []
        \<and> json_loads e t = Inr p"
    using that h
    by (simp add: argquery_resource_policy_def truthy_def run_and_return_def
        split: option.splits)
  have 3: "fst (handle_argquery e a) =
      [Argquery graph (principal a) (action a) (resource a) cs (preset a) (skip_admin a)
         None (resource_owner a) (include_unauthorized a)]"
    if "\<not> grab_resource_policy a
        \<and> (resource_policy_text a = None \<or> resource_policy_text a = Some [])"
    using that h
    by (auto simp: argquery_resource_policy_def truthy_def run_and_return_def
        split: option.splits)
  show ?thesis using cs 1 2 3 by blast
qed

lemma sample_call_session:
  "account a = None \<Longrightarrow> grab_session sample_env a = Inr (Some ''session'')"
  by (simp add: grab_session_def sample_env_def)

theorem argquery_call_arguments_witness:
  "fst (handle_argquery sample_env sample_args) =
     [Argquery ''graph'' (Some ''user/alice'') (Some ''s3:GetObject'') (Some ''*'')
        [(''aws:username'', ''bob''), (''tag'', ''a=b'')] None False None None False]
   \<and> fst (handle_argquery sample_env (sample_args\<lparr>resource_policy_text := Some ''{}''\<rparr>)) =
     [Argquery ''graph'' (Some ''user/alice'') (Some ''s3:GetObject'') (Some ''*'')
        [(''aws:username'', ''bob''), (''tag'', ''a=b'')] None False (Some ''{}'') None False]
   \<and> fst (handle_argquery sample_env
            (sample_args\<lparr>grab_resource_policy := True, resource_policy_text := Some ''{}''\<rparr>)) =
     [Argquery ''graph'' (Some ''user/alice'') (Some ''s3:GetObject'') (Some ''*'')
        [(''aws:username'', ''bob''), (''tag'', ''a=b'')] None False (Some ''cached policy'')
        None False]"
proof -
  let ?text = "sample_args\<lparr>resource_policy_text := Some ''{}''\<rparr>"
  let ?grab = "sample_args\<lparr>grab_resource_policy := True, resource_policy_text := Some ''{}''\<rparr>"
  let ?cs = "[(''aws:username'', ''bob''), (''tag'', ''a=b'')]"
  have s: "grab_session sample_env sample_args = Inr (Some ''session'')"
      "grab_session sample_env ?text = Inr (Some ''session'')"
      "grab_session sample_env ?grab = Inr (Some ''session'')"
    by (simp_all add: sample_call_session sample_args_def)
  have g: "get_existing_graph sample_env (Some ''session'') acct = Inr ''graph''" for acct
    by (simp add: sample_env_def)
  have w: "\<forall>arg\<in>set (condition_args sample_args). CHR ''='' \<in> set arg"
      "\<forall>arg\<in>set (condition_args ?text). CHR ''='' \<in> set arg"
      "\<forall>arg\<in>set (condition_args ?grab). CHR ''='' \<in> set arg"
    by (simp_all add: condition_args_def sample_args_def)
  have c: "condition_loop (condition_args sample_args) [] = Some ?cs"
      "condition_loop (condition_args ?text) [] = Some ?cs"
      "condition_loop (condition_args ?grab) [] = Some ?cs"
    by (simp_all add: condition_args_def sample_args_def Let_def)
  have n: "\<not> grab_resource_policy sample_args
      \<and> (resource_policy_text sample_args = None \<or> resource_policy_text sample_args = Some [])"
    by (simp add: sample_args_def)
  have t: "\<not> grab_resource_policy ?text \<and> resource_policy_text ?text = Some ''{}''
      \<and> ''{}'' \<noteq> [] \<and> json_loads sample_env ''{}'' = Inr ''{}''"
    by (simp add: sample_args_def sample_env_def)
  have p: "grab_resource_policy ?grab \<and> Some ''session'' \<noteq> None
      \<and> pull_cached_resource_policy_by_arn sample_env ''graph'' (resource ?grab) None
          = Inr ''cached policy''"
    by (simp add: sample_env_def)
  have 1: "fst (handle_argquery sample_env sample_args) =
     [Argquery ''graph'' (Some ''user/alice'') (Some ''s3:GetObject'') (Some ''*'')
        ?cs None False None None False]"
    using argquery_call_arguments [OF s(1) g w(1)] c(1) n by (auto simp: sample_args_def)
  have 2: "fst (handle_argquery sample_env ?text) =
     [Argquery ''graph'' (Some ''user/alice'') (Some ''s3:GetObject'') (Some ''*'')
        ?cs None False (Some ''{}'') None False]"
    using argquery_call_arguments [OF s(2) g w(2), where t = "''{}''" and p = "''{}''"] c(2) t
    by (auto simp: sample_args_def)
  have 3: "fst (handle_argquery sample_env ?grab) =
     [Argquery ''graph'' (Some ''user/alice'') (Some ''s3:GetObject'') (Some ''*'')
        ?cs None False (Some ''cached policy'') None False]"
    using argquery_call_arguments [OF s(3) g w(3), where p = "''cached policy''"] c(3) p
    by (auto simp: sample_args_def)
  show ?thesis using 1 2 3 by simp
qed

text \<open>
  The claim without the amendment fails: with well-formed condition arguments,
  \<open>--account\<close> and the grab-resource-policy flag, the handler raises \<open>ValueError\<close> and
  calls nothing.
\<close>

theorem argquery_without_session_counterexample:
  "list_all (\<lambda>arg. CHR ''='' \<in> set arg)
     (condition_args (sample_args\<lparr>account := Some ''123456789012'', grab_resource_policy := True\<rparr>))
   \<and> handle_argquery sample_env
       (sample_args\<lparr>account := Some ''123456789012'', grab_resource_policy := True\<rparr>)
     = ([], Inl (ValueError session_required))"
  by (simp add: handle_argquery_def grab_session_def sample_env_def sample_args_def
      argquery_resource_policy_def condition_args_def Let_def)

subsection \<open>Resource policy retrieval without a session\<close>

lemma grab_session_offline: "account a = Some acct \<Longrightarrow> grab_session e a = Inr None"
  by (simp add: grab_session_def)

text \<open>
  C9 (as amended). With \<open>--account\<close> given (so no session is created) and the
  grab-resource-policy flag set, once the graph is loaded: the query handler raises
  \<open>ValueError\<close> before any call is made; the argquery handler does the same provided every
  condition argument has an \<open>=\<close>.
\<close>

theorem resource_policy_needs_session:
  assumes "account a = Some acct"
      and "grab_resource_policy a"
      and "get_existing_graph e None (account a) = Inr graph"
  shows "handle_query e a = ([], Inl (ValueError session_required))
       \<and> ((\<forall>arg\<in>set (condition_args a). CHR ''='' \<in> set arg) \<longrightarrow>
            handle_argquery e a = ([], Inl (ValueError session_required)))"
proof (intro conjI impI)
  show "handle_query e a = ([], Inl (ValueError session_required))"
    using assms grab_session_offline [OF assms(1), of e]
    by (simp add: handle_query_def query_resource_policy_def)
next
  assume "\<forall>arg\<in>set (condition_args a). CHR ''='' \<in> set arg"
  then have "well_formed (condition_args a)" by (simp add: well_formed_iff)
  then obtain cs where cs: "condition_loop (condition_args a) [] = Some cs"
    using later_wins_start by blast
  show "handle_argquery e a = ([], Inl (ValueError session_required))"
    using handle_argquery_after_loop [OF grab_session_offline [OF assms(1)] assms(3) cs]
      assms(2)
    by (simp add: argquery_resource_policy_def)
qed

theorem resource_policy_needs_session_witness:
  "handle_query sample_env
     (sample_args\<lparr>account := Some ''123456789012'', grab_resource_policy := True\<rparr>)
     = ([], Inl (ValueError session_required))
   \<and> handle_argquery sample_env
       (sample_args\<lparr>account := Some ''123456789012'', grab_resource_policy := True\<rparr>)
     = ([], Inl (ValueError session_required))"
proof -
  let ?a = "sample_args\<lparr>account := Some ''123456789012'', grab_resource_policy := True\<rparr>"
  have 1: "account ?a = Some ''123456789012''" by simp
  have 2: "grab_resource_policy ?a" by simp
  have 3: "get_existing_graph sample_env None (account ?a) = Inr ''graph''"
    by (simp add: sample_env_def)
  have 4: "\<forall>arg\<in>set (condition_args ?a). CHR ''='' \<in> set arg"
    by (simp add: condition_args_def sample_args_def)
  show ?thesis using resource_policy_needs_session [OF 1 2 3] 4 by blast
qed

text \<open>
  The claim without the proviso fails for argquery: the condition arguments are checked
  first, so a malformed one makes the handler print the format message and return 64
  instead of raising.
\<close>

theorem argquery_format_error_first_counterexample:
  "handle_argquery sample_env
     (sample_args\<lparr>account := Some ''123456789012'', grab_resource_policy := True,
        condition := Some [''novalue'']\<rparr>)
   = ([Print format_not_matched], Inr 64)"
  by (simp add: handle_argquery_def grab_session_def sample_env_def sample_args_def Let_def)

subsection \<open>Exit codes\<close>

lemma handle_query_returns:
  "snd (handle_query e a) = Inr c \<Longrightarrow> c = 0"
  by (auto simp: handle_query_def run_and_return_def split: sum.splits option.splits)

lemma handle_repl_returns:
  "snd (handle_repl e a) = Inr c \<Longrightarrow> c = 0"
  by (auto simp: handle_repl_def run_and_return_def split: sum.splits option.splits)

lemma handle_visualization_returns:
  "snd (handle_visualization e a) = Inr c \<Longrightarrow> c = 0"
  by (auto simp: handle_visualization_def Let_def split: sum.splits option.splits)

lemma handle_analysis_returns:
  "snd (handle_analysis e a) = Inr c \<Longrightarrow> c = 0"
  by (auto simp: handle_analysis_def run_and_return_def split: sum.splits option.splits)

lemma handle_argquery_returns:
  assumes "snd (handle_argquery e a) = Inr c"
  shows "c = 0 \<or> (c = 64 \<and> \<not> well_formed (condition_args a))"
proof (cases "well_formed (condition_args a)")
  case True
  then obtain cs where cs: "condition_loop (condition_args a) [] = Some cs"
    using later_wins_start by blast
  show ?thesis
  proof (cases "grab_session e a")
    case (Inl x)
    then show ?thesis using assms by (simp add: handle_argquery_def)
  next
    case (Inr session)
    show ?thesis
    proof (cases "get_existing_graph e session (account a)")
      case (Inl x)
      then show ?thesis using assms Inr by (simp add: handle_argquery_def)
    next
      case graph: (Inr graph)
      show ?thesis
        using assms handle_argquery_after_loop [OF Inr graph cs]
        by (auto simp: run_and_return_def split: sum.splits option.splits)
    qed
  qed
next
  case False
  then show ?thesis
    using assms handle_argquery_format_error [of e a]
    by (auto simp: handle_argquery_def split: sum.splits)
qed

lemma main_parsed:
  "parse_args sub cl = Inr parsed \<Longrightarrow>
     main e sub cl =
       (if picked_cmd parsed = Some ''graph'' then ([], process_arguments e parsed)
        else if picked_cmd parsed = Some ''query'' then handle_query e parsed
        else if picked_cmd parsed = Some ''argquery'' then handle_argquery e parsed
        else if picked_cmd parsed = Some ''repl'' then handle_repl e parsed
        else if picked_cmd parsed = Some ''visualize'' then handle_visualization e parsed
        else if picked_cmd parsed = Some ''analysis'' then handle_analysis e parsed
        else ([], Inr 64))"
  by (simp add: main_def)

text \<open>
  C10 (as amended). \<open>main\<close> returns 64 when the command line has no subcommand. A
  subcommand name other than graph, query, argquery, repl, visualize and analysis never
  reaches the dispatch: \<open>parse_args()\<close> ends the program with \<open>SystemExit(2)\<close>, as does
  any other exit of the parser. For each of the six names, once the command line is
  parsed, \<open>main\<close> returns what the subcommand's handler returns; and whenever the query,
  repl, visualize or analysis handler returns an exit code, the code is 0, as it is for
  the argquery handler when every condition argument has an \<open>=\<close>.
\<close>

theorem main_exit_codes:
  "(subcommand cl = None \<longrightarrow> main e sub cl = ([], Inr 64))
   \<and> (subcommand cl = Some (name, rest)
        \<and> name \<notin> {''graph'', ''query'', ''argquery'', ''repl'', ''visualize'', ''analysis''} \<longrightarrow>
        main e sub cl = ([], Inl (SystemExit 2)))
   \<and> (parse_args sub cl = Inl x \<longrightarrow> main e sub cl = ([], Inl x))
   \<and> (parse_args sub cl = Inr parsed \<and> picked_cmd parsed = Some ''graph'' \<longrightarrow>
        main e sub cl = ([], process_arguments e parsed))
   \<and> (parse_args sub cl = Inr parsed \<and> picked_cmd parsed = Some ''query'' \<longrightarrow>
        main e sub cl = handle_query e parsed)
   \<and> (parse_args sub cl = Inr parsed \<and> picked_cmd parsed = Some ''argquery'' \<longrightarrow>
        main e sub cl = handle_argquery e parsed)
   \<and> (parse_args sub cl = Inr parsed \<and> picked_cmd parsed = Some ''repl'' \<longrightarrow>
        main e sub cl = handle_repl e parsed)
   \<and> (parse_args sub cl = Inr parsed \<and> picked_cmd parsed = Some ''visualize'' \<longrightarrow>
        main e sub cl = handle_visualization e parsed)
   \<and> (parse_args sub cl = Inr parsed \<and> picked_cmd parsed = Some ''analysis'' \<longrightarrow>
        main e sub cl = handle_analysis e parsed)
   \<and> (snd (handle_query e a) = Inr c \<longrightarrow> c = 0)
   \<and> (snd (handle_argquery e a) = Inr c
        \<and> (\<forall>arg\<in>set (condition_args a). CHR ''='' \<in> set arg) \<longrightarrow> c = 0)
   \<and> (snd (handle_repl e a) = Inr c \<longrightarrow> c = 0)
   \<and> (snd (handle_visualization e a) = Inr c \<longrightarrow> c = 0)
   \<and> (snd (handle_analysis e a) = Inr c \<longrightarrow> c = 0)"
proof -
  have "subcommand cl = None \<longrightarrow> main e sub cl = ([], Inr 64)"
    by (simp add: main_def parse_args_def top_level_namespace_def)
  moreover have "subcommand cl = Some (name, rest)
        \<and> name \<notin> {''graph'', ''query'', ''argquery'', ''repl'', ''visualize'', ''analysis''} \<longrightarrow>
        main e sub cl = ([], Inl (SystemExit 2))"
    by (simp add: main_def parse_args_def subcommand_names_def)
  moreover have "parse_args sub cl = Inl x \<longrightarrow> main e sub cl = ([], Inl x)"
    by (simp add: main_def)
  moreover have "parse_args sub cl = Inr parsed \<and> picked_cmd parsed = Some ''graph'' \<longrightarrow>
        main e sub cl = ([], process_arguments e parsed)"
    using main_parsed [of sub cl parsed e] by simp
  moreover have "parse_args sub cl = Inr parsed \<and> picked_cmd parsed = Some ''query'' \<longrightarrow>
        main e sub cl = handle_query e parsed"
    using main_parsed [of sub cl parsed e] by simp
  moreover have "parse_args sub cl = Inr parsed \<and> picked_cmd parsed = Some ''argquery'' \<longrightarrow>
        main e sub cl = handle_argquery e parsed"
    using main_parsed [of sub cl parsed e] by simp
  moreover have "parse_args sub cl = Inr parsed \<and> picked_cmd parsed = Some ''repl'' \<longrightarrow>
        main e sub cl = handle_repl e parsed"
    using main_parsed [of sub cl parsed e] by simp
  moreover have "parse_args sub cl = Inr parsed \<and> picked_cmd parsed = Some ''visualize'' \<longrightarrow>
        main e sub cl = handle_visualization e parsed"
    using main_parsed [of sub cl parsed e] by simp
  moreover have "parse_args sub cl = Inr parsed \<and> picked_cmd parsed = Some ''analysis'' \<longrightarrow>
        main e sub cl = handle_analysis e parsed"
    using main_parsed [of sub cl parsed e] by simp
  moreover have "snd (handle_argquery e a) = Inr c
        \<and> (\<forall>arg\<in>set (condition_args a). CHR ''='' \<in> set arg) \<longrightarrow> c = 0"
    using handle_argquery_returns [of e a c] by (auto simp: well_formed_iff)
  ultimately show ?thesis
    using handle_query_returns [of e a c] handle_repl_returns [of e a c]
      handle_visualization_returns [of e a c] handle_analysis_returns [of e a c]
    by blast
qed

lemma sample_parse:
  "name \<in> set subcommand_names \<Longrightarrow>
     parse_args sample_subparser (sample_command_line (Some (name, rest)))
       = Inr (sample_args\<lparr>picked_cmd := Some name\<rparr>)"
  by (simp add: parse_args_def sample_subparser_def sample_command_line_def
      top_level_namespace_def sample_args_def)

theorem main_exit_codes_witness:
  "main sample_env sample_subparser (sample_command_line None) = ([], Inr 64)
   \<and> main sample_env sample_subparser (sample_command_line (Some (''policies'', [])))
       = ([], Inl (SystemExit 2))
   \<and> main sample_env sample_subparser (sample_command_line (Some (''graph'', [])))
       = ([], Inr 0)
   \<and> main sample_env sample_subparser (sample_command_line (Some (''query'', [])))
       = ([Query_response ''graph'' ''who can do s3:GetObject with *'' False None None False], Inr 0)
   \<and> main sample_env sample_subparser (sample_command_line (Some (''argquery'', [])))
       = ([Argquery ''graph'' (Some ''user/alice'') (Some ''s3:GetObject'') (Some ''*'')
            [(''aws:username'', ''bob''), (''tag'', ''a=b'')] None False None None False], Inr 0)
   \<and> main sample_env sample_subparser (sample_command_line (Some (''repl'', [])))
       = ([Begin_repl ''graph''], Inr 0)
   \<and> main sample_env sample_subparser (sample_command_line (Some (''visualize'', [])))
       = ([Handle_request ''graph'' ''./123456789012.svg'' ''svg'',
           Print ''Created file ./123456789012.svg''], Inr 0)
   \<and> main sample_env sample_subparser (sample_command_line (Some (''analysis'', [])))
       = ([Gen_findings_and_print ''graph'' ''text''], Inr 0)"
proof -
  have q: "handle_query sample_env (sample_args\<lparr>picked_cmd := Some ''query''\<rparr>)
       = ([Query_response ''graph'' ''who can do s3:GetObject with *'' False None None False], Inr 0)"
    by (simp add: handle_query_def grab_session_def sample_env_def sample_args_def
        query_resource_policy_def truthy_def run_and_return_def)
  have aq: "handle_argquery sample_env (sample_args\<lparr>picked_cmd := Some ''argquery''\<rparr>)
       = ([Argquery ''graph'' (Some ''user/alice'') (Some ''s3:GetObject'') (Some ''*'')
            [(''aws:username'', ''bob''), (''tag'', ''a=b'')] None False None None False], Inr 0)"
    by (simp add: handle_argquery_def grab_session_def sample_env_def sample_args_def
        argquery_resource_policy_def truthy_def run_and_return_def Let_def)
  have r: "handle_repl sample_env (sample_args\<lparr>picked_cmd := Some ''repl''\<rparr>)
       = ([Begin_repl ''graph''], Inr 0)"
    by (simp add: handle_repl_def grab_session_def sample_env_def sample_args_def
        run_and_return_def)
  have v: "handle_visualization sample_env (sample_args\<lparr>picked_cmd := Some ''visualize''\<rparr>)
       = ([Handle_request ''graph'' ''./123456789012.svg'' ''svg'',
           Print ''Created file ./123456789012.svg''], Inr 0)"
    by (simp add: handle_visualization_def grab_session_def sample_env_def sample_args_def
        account_id_of_def Let_def)
  have an: "handle_analysis sample_env (sample_args\<lparr>picked_cmd := Some ''analysis''\<rparr>)
       = ([Gen_findings_and_print ''graph'' ''text''], Inr 0)"
    by (simp add: handle_analysis_def grab_session_def sample_env_def sample_args_def
        run_and_return_def)
  have g: "process_arguments sample_env ns = Inr 0" for ns
    by (simp add: sample_env_def)
  have names: "''graph'' \<in> set subcommand_names" "''query'' \<in> set subcommand_names"
      "''argquery'' \<in> set subcommand_names" "''repl'' \<in> set subcommand_names"
      "''visualize'' \<in> set subcommand_names" "''analysis'' \<in> set subcommand_names"
    by (simp_all add: subcommand_names_def)
  have none: "subcommand (sample_command_line None) = None"
    by (simp add: sample_command_line_def)
  have other: "subcommand (sample_command_line (Some (''policies'', []))) = Some (''policies'', [])
      \<and> ''policies'' \<notin> {''graph'', ''query'', ''argquery'', ''repl'', ''visualize'', ''analysis''}"
    by (simp add: sample_command_line_def)
  have pc: "parse_args sample_subparser (sample_command_line (Some (name, [])))
        = Inr (sample_args\<lparr>picked_cmd := Some name\<rparr>)
      \<and> picked_cmd (sample_args\<lparr>picked_cmd := Some name\<rparr>) = Some name"
    if "name \<in> set subcommand_names" for name
    using sample_parse [OF that] by simp
  have 1: "main sample_env sample_subparser (sample_command_line None) = ([], Inr 64)"
    by (rule main_exit_codes [THEN conjunct1, THEN mp, OF none])
  have 2: "main sample_env sample_subparser (sample_command_line (Some (''policies'', [])))
       = ([], Inl (SystemExit 2))"
    by (rule main_exit_codes [THEN conjunct2, THEN conjunct1, THEN mp, OF other])
  note rest = main_exit_codes [THEN conjunct2, THEN conjunct2, THEN conjunct2]
  have 3: "main sample_env sample_subparser (sample_command_line (Some (''graph'', [])))
       = ([], Inr 0)"
    using rest [THEN conjunct1, THEN mp, OF pc [OF names(1)], of sample_env] g by simp
  note rest = rest [THEN conjunct2]
  have 4: "main sample_env sample_subparser (sample_command_line (Some (''query'', [])))
       = handle_query sample_env (sample_args\<lparr>picked_cmd := Some ''query''\<rparr>)"
    by (rule rest [THEN conjunct1, THEN mp, OF pc [OF names(2)]])
  note rest = rest [THEN conjunct2]
  have 5: "main sample_env sample_subparser (sample_command_line (Some (''argquery'', [])))
       = handle_argquery sample_env (sample_args\<lparr>picked_cmd := Some ''argquery''\<rparr>)"
    by (rule rest [THEN conjunct1, THEN mp, OF pc [OF names(3)]])
  note rest = rest [THEN conjunct2]
  have 6: "main sample_env sample_subparser (sample_command_line (Some (''repl'', [])))
       = handle_repl sample_env (sample_args\<lparr>picked_cmd := Some ''repl''\<rparr>)"
    by (rule rest [THEN conjunct1, THEN mp, OF pc [OF names(4)]])
  note rest = rest [THEN conjunct2]
  have 7: "main sample_env sample_subparser (sample_command_line (Some (''visualize'', [])))
       = handle_visualization sample_env (sample_args\<lparr>picked_cmd := Some ''visualize''\<rparr>)"
    by (rule rest [THEN conjunct1, THEN mp, OF pc [OF names(5)]])
  note rest = rest [THEN conjunct2]
  have 8: "main sample_env sample_subparser (sample_command_line (Some (''analysis'', [])))
       = handle_analysis sample_env (sample_args\<lparr>picked_cmd := Some ''analysis''\<rparr>)"
    by (rule rest [THEN conjunct1, THEN mp, OF pc [OF names(6)]])
  show ?thesis
    unfolding 1 2 3 4 5 6 7 8 q aq r v an by simp
qed

text \<open>
  The claim without the amendment fails: invoked with the subcommand name \<open>policies\<close>,
  \<open>main\<close> does not return 64; the parser ends the program with status 2.
\<close>

theorem unknown_subcommand_counterexample:
  "''policies'' \<notin> set subcommand_names
   \<and> main sample_env sample_subparser
       \<lparr>given_profile = None, given_debug = False, given_account = None,
        subcommand = Some (''policies'', [])\<rparr>
     = ([], Inl (SystemExit 2))"
  by (simp add: main_def parse_args_def subcommand_names_def)

section \<open>Properties of the evaluation engine\<close>

lemma find_append_split:
  "find P (xs @ ys) = (case find P xs of None \<Rightarrow> find P ys | Some x \<Rightarrow> Some x)"
  by (induction xs) auto

lemma find_in_set: "find P xs = Some x \<Longrightarrow> x \<in> set xs \<and> P x"
  by (induction xs) (auto split: if_splits)

lemma find_exists: "x \<in> set xs \<Longrightarrow> P x \<Longrightarrow> \<exists>y. find P xs = Some y"
  by (induction xs) auto

lemma find_filter_irrelevant:
  "(\<And>x. x \<in> set xs \<Longrightarrow> \<not> Q x \<Longrightarrow> \<not> P x) \<Longrightarrow> find P (filter Q xs) = find P xs"
  by (induction xs) auto

lemma candidates_eq:
  "candidates req =
     tagged Identity (Some (identity_statements (req_principal req)))
     @ tagged Boundary (map_option policy_statements (permissions_boundary (req_principal req)))
     @ tagged ResourcePolicy (map_option policy_statements (req_resource_policy req))"
  by (simp add: candidates_def)

lemma first_match_request:
  assumes "req_action req = Some a" and "req_resource req = Some r"
  shows "first_match sem (req_principal req) a r (req_context req) eff cands =
     find (\<lambda>c. stmt_effect (snd c) = eff \<and> matches_request sem req (snd c)) cands"
  using assms by (simp add: first_match_def matches_request_def)

lemma matches_request_well_formed:
  "matches_request sem req s \<Longrightarrow> \<exists>a r. req_action req = Some a \<and> req_resource req = Some r"
  by (auto simp: matches_request_def split: option.splits)

lemma combine_deny:
  assumes "first_match sem p a r ctx Deny
             (tagged Identity (Some S_i) @ tagged Boundary S_b @ tagged ResourcePolicy S_r) = Some c"
  shows "outcome (combine sem p a r ctx S_i S_b S_r) = Decision_Deny
       \<and> matched (combine sem p a r ctx S_i S_b S_r) = [c]"
  using assms by (simp add: combine_def Let_def)

text \<open>
  C1. If an Allow statement and an explicit Deny statement, each from the identity
  policies, the permissions boundary or the supplied resource policy, both match the
  request's action, resource and conditions, \<open>evaluate\<close> returns a Decision whose outcome
  is Deny and which cites one statement: a matching Deny of those sets, the first in the
  order identity, boundary, resource policy.
\<close>

theorem deny_precedence:
  assumes "(src_a, s_a) \<in> set (candidates req)" and "stmt_effect s_a = Allow"
      and "matches_request sem req s_a"
      and "(src_d, s_d) \<in> set (candidates req)" and "stmt_effect s_d = Deny"
      and "matches_request sem req s_d"
  shows "\<exists>d cited.
           evaluate sem req = Inr d \<and> outcome d = Decision_Deny \<and> matched d = [cited]
           \<and> cited \<in> set (candidates req) \<and> stmt_effect (snd cited) = Deny
           \<and> matches_request sem req (snd cited)
           \<and> find (\<lambda>c. stmt_effect (snd c) = Deny \<and> matches_request sem req (snd c))
                (candidates req) = Some cited"
proof -
  obtain a r where ar: "req_action req = Some a" "req_resource req = Some r"
    using matches_request_well_formed [OF assms(6)] by blast
  let ?P = "\<lambda>c. stmt_effect (snd c) = Deny \<and> matches_request sem req (snd c)"
  obtain cited where cited: "find ?P (candidates req) = Some cited"
    using find_exists [of "(src_d, s_d)" "candidates req" ?P] assms(4,5,6) by auto
  have fm: "first_match sem (req_principal req) a r (req_context req) Deny (candidates req)
      = Some cited"
    using cited first_match_request [OF ar] by simp
  let ?d = "combine sem (req_principal req) a r (req_context req)
      (identity_statements (req_principal req))
      (map_option policy_statements (permissions_boundary (req_principal req)))
      (map_option policy_statements (req_resource_policy req))"
  have ev: "evaluate sem req = Inr ?d"
    using ar by (simp add: evaluate_def evaluate_sets_def)
  have "outcome ?d = Decision_Deny \<and> matched ?d = [cited]"
    using fm combine_deny unfolding candidates_eq by blast
  then show ?thesis
    using ev cited find_in_set [OF cited] by blast
qed


lemma tagged_source: "c \<in> set (tagged src ss) \<Longrightarrow> fst c = src"
  by (auto simp: tagged_def split: option.splits)

lemma first_match_source:
  "first_match sem p a r ctx eff (tagged src ss) = Some c \<Longrightarrow> fst c = src"
  unfolding first_match_def using find_in_set tagged_source by fastforce

lemma first_match_append:
  "first_match sem p a r ctx eff (xs @ ys) =
     (case first_match sem p a r ctx eff xs of
        None \<Rightarrow> first_match sem p a r ctx eff ys
      | Some x \<Rightarrow> Some x)"
  unfolding first_match_def by (rule find_append_split)

lemma first_match_Nil: "first_match sem p a r ctx eff [] = None"
  by (simp add: first_match_def)

lemma tagged_None: "tagged src None = []"
  by (simp add: tagged_def)

lemma combine_allow_no_deny:
  assumes "outcome (combine sem p a r ctx S_i S_b S_r) = Decision_Allow"
  shows "first_match sem p a r ctx Deny (tagged Identity (Some S_i)) = None
       \<and> first_match sem p a r ctx Deny (tagged Boundary S_b) = None
       \<and> first_match sem p a r ctx Deny (tagged ResourcePolicy S_r) = None"
  using assms
  by (auto simp: combine_def Let_def first_match_append split: option.splits)

lemma combine_allow_paths:
  assumes "outcome (combine sem p a r ctx S_i (Some B) S_r) = Decision_Allow"
  shows "(\<exists>i j. first_match sem p a r ctx Allow (tagged Identity (Some S_i)) = Some i
               \<and> first_match sem p a r ctx Allow (tagged Boundary (Some B)) = Some j
               \<and> matched (combine sem p a r ctx S_i (Some B) S_r) = [i, j])
       \<or> (\<exists>x. first_match sem p a r ctx Allow (tagged ResourcePolicy S_r) = Some x
               \<and> matched (combine sem p a r ctx S_i (Some B) S_r) = [x])"
  using assms
  by (auto simp: combine_def Let_def first_match_append split: option.splits)

lemma combine_no_boundary_allow:
  assumes "first_match sem p a r ctx Deny (tagged Identity (Some S_i)) = None"
      and "first_match sem p a r ctx Deny (tagged ResourcePolicy S_r) = None"
      and "first_match sem p a r ctx Allow (tagged Identity (Some S_i)) \<noteq> None
           \<or> first_match sem p a r ctx Allow (tagged ResourcePolicy S_r) \<noteq> None"
  shows "outcome (combine sem p a r ctx S_i None S_r) = Decision_Allow"
  using assms
  by (auto simp: combine_def Let_def first_match_append tagged_None first_match_Nil
      split: option.splits)

text \<open>
  C3. For a principal with a permissions boundary, a request that \<open>evaluate\<close> allows is
  also allowed when the boundary is taken away, so the boundary adds no request. If the
  Allow came by the identity path (the Decision cites an identity statement), the identity
  policies alone allow the request, through a matching Allow of theirs, and the boundary
  has a matching Allow too: it is an additional Allow filter.
\<close>

theorem boundary_narrowing:
  assumes "permissions_boundary (req_principal req) = Some b"
      and "evaluate sem req = Inr d"
      and "outcome d = Decision_Allow"
  shows "(\<exists>d'. evaluate_without_boundary sem req = Inr d' \<and> outcome d' = Decision_Allow)
       \<and> ((\<exists>s. (Identity, s) \<in> set (matched d)) \<longrightarrow>
            (\<exists>d'. evaluate_identity_alone sem req = Inr d' \<and> outcome d' = Decision_Allow)
            \<and> (\<exists>s\<in>set (identity_statements (req_principal req)).
                  stmt_effect s = Allow \<and> matches_request sem req s)
            \<and> (\<exists>s\<in>set (policy_statements b).
                  stmt_effect s = Allow \<and> matches_request sem req s))"
proof -
  obtain a r where ar: "req_action req = Some a" "req_resource req = Some r"
    using assms(2) by (auto simp: evaluate_def evaluate_sets_def split: option.splits)
  let ?p = "req_principal req" and ?ctx = "req_context req"
  let ?Si = "identity_statements ?p" and ?B = "policy_statements b"
  let ?Sr = "map_option policy_statements (req_resource_policy req)"
  have d: "d = combine sem ?p a r ?ctx ?Si (Some ?B) ?Sr"
    using assms(1,2) ar by (simp add: evaluate_def evaluate_sets_def)
  have allow: "outcome (combine sem ?p a r ?ctx ?Si (Some ?B) ?Sr) = Decision_Allow"
    using assms(3) d by simp
  note nodeny = combine_allow_no_deny [OF allow]
  note paths = combine_allow_paths [OF allow]
  have some: "first_match sem ?p a r ?ctx Allow (tagged Identity (Some ?Si)) \<noteq> None
      \<or> first_match sem ?p a r ?ctx Allow (tagged ResourcePolicy ?Sr) \<noteq> None"
    using paths by auto
  have 1: "\<exists>d'. evaluate_without_boundary sem req = Inr d' \<and> outcome d' = Decision_Allow"
    using combine_no_boundary_allow [of sem ?p a r ?ctx ?Si ?Sr] nodeny some ar
    by (simp add: evaluate_without_boundary_def evaluate_sets_def)
  have 2: "(\<exists>d'. evaluate_identity_alone sem req = Inr d' \<and> outcome d' = Decision_Allow)
            \<and> (\<exists>s\<in>set ?Si. stmt_effect s = Allow \<and> matches_request sem req s)
            \<and> (\<exists>s\<in>set ?B. stmt_effect s = Allow \<and> matches_request sem req s)"
    if via: "(Identity, s) \<in> set (matched d)" for s
  proof -
    have "\<not> (\<exists>x. first_match sem ?p a r ?ctx Allow (tagged ResourcePolicy ?Sr) = Some x
               \<and> matched d = [x])"
      using via first_match_source [of sem ?p a r ?ctx Allow ResourcePolicy ?Sr] by fastforce
    then obtain i j where ij:
        "first_match sem ?p a r ?ctx Allow (tagged Identity (Some ?Si)) = Some i"
        "first_match sem ?p a r ?ctx Allow (tagged Boundary (Some ?B)) = Some j"
      using paths d by auto
    have "outcome (combine sem ?p a r ?ctx ?Si None None) = Decision_Allow"
      using combine_no_boundary_allow [of sem ?p a r ?ctx ?Si None] nodeny ij(1)
      by (simp add: tagged_None first_match_Nil)
    then have a1: "\<exists>d'. evaluate_identity_alone sem req = Inr d' \<and> outcome d' = Decision_Allow"
      using ar by (simp add: evaluate_identity_alone_def evaluate_sets_def)
    have "i \<in> set (tagged Identity (Some ?Si)) \<and> stmt_effect (snd i) = Allow
        \<and> matches_request sem req (snd i)"
      using ij(1) find_in_set unfolding first_match_request [OF ar] by fastforce
    then have a2: "\<exists>s\<in>set ?Si. stmt_effect s = Allow \<and> matches_request sem req s"
      by (auto simp: tagged_def)
    have "j \<in> set (tagged Boundary (Some ?B)) \<and> stmt_effect (snd j) = Allow
        \<and> matches_request sem req (snd j)"
      using ij(2) find_in_set unfolding first_match_request [OF ar] by fastforce
    then have a3: "\<exists>s\<in>set ?B. stmt_effect s = Allow \<and> matches_request sem req s"
      by (auto simp: tagged_def)
    show ?thesis using a1 a2 a3 by blast
  qed
  show ?thesis using 1 2 by blast
qed


lemma absent_key_false: "ctx (cond_key c) = None \<Longrightarrow> eval_condition sem ctx c = Inr False"
  by (simp add: eval_condition_def)

lemma absent_key_no_match:
  assumes "ctx (cond_key c) = None" and "c \<in> set (stmt_condition s)"
  shows "\<not> statement_matches sem p a r ctx s"
proof -
  have "\<not> condition_holds sem ctx c"
    using assms(1) by (simp add: condition_holds_def absent_key_false)
  then show ?thesis
    using assms(2) by (auto simp: statement_matches_def list_all_iff)
qed

lemma removeAll_as_filter: "removeAll s l = filter (\<lambda>x. x \<noteq> s) l"
  by (induction l) auto

lemma tagged_removeAll:
  "tagged src (map_option (removeAll s) ss) = filter (\<lambda>c. snd c \<noteq> s) (tagged src ss)"
  by (cases ss) (simp_all add: tagged_def removeAll_as_filter filter_map comp_def)

lemma first_match_removeAll:
  assumes "\<not> statement_matches sem p a r ctx s"
  shows "first_match sem p a r ctx eff (tagged src (map_option (removeAll s) ss))
       = first_match sem p a r ctx eff (tagged src ss)"
  unfolding first_match_def tagged_removeAll
  using assms by (intro find_filter_irrelevant) auto

lemma combine_same_matches:
  assumes "\<And>eff. first_match sem p a r ctx eff (tagged Identity (Some S_i'))
             = first_match sem p a r ctx eff (tagged Identity (Some S_i))"
      and "\<And>eff. first_match sem p a r ctx eff (tagged Boundary S_b')
             = first_match sem p a r ctx eff (tagged Boundary S_b)"
      and "\<And>eff. first_match sem p a r ctx eff (tagged ResourcePolicy S_r')
             = first_match sem p a r ctx eff (tagged ResourcePolicy S_r)"
      and "(S_b' = None) = (S_b = None)"
  shows "outcome (combine sem p a r ctx S_i' S_b' S_r') = outcome (combine sem p a r ctx S_i S_b S_r)
       \<and> matched (combine sem p a r ctx S_i' S_b' S_r') = matched (combine sem p a r ctx S_i S_b S_r)"
proof (cases S_b)
  case None
  then have "S_b' = None" using assms(4) by simp
  then show ?thesis
    using None assms(1,3)
    by (simp add: combine_def Let_def first_match_append tagged_None first_match_Nil
        split: option.splits)
next
  case (Some B)
  then obtain B' where B': "S_b' = Some B'" using assms(4) by (cases S_b') auto
  show ?thesis
    using assms(1,3) assms(2) [unfolded Some B']
    by (simp add: combine_def Let_def first_match_append Some B' split: option.splits)
qed

lemma combine_removeAll:
  assumes "\<not> statement_matches sem p a r ctx s"
  shows "outcome (combine sem p a r ctx (removeAll s S_i) (map_option (removeAll s) S_b)
                    (map_option (removeAll s) S_r))
         = outcome (combine sem p a r ctx S_i S_b S_r)
       \<and> matched (combine sem p a r ctx (removeAll s S_i) (map_option (removeAll s) S_b)
                    (map_option (removeAll s) S_r))
         = matched (combine sem p a r ctx S_i S_b S_r)"
proof (rule combine_same_matches)
  show "first_match sem p a r ctx eff (tagged Identity (Some (removeAll s S_i)))
      = first_match sem p a r ctx eff (tagged Identity (Some S_i))" for eff
    using first_match_removeAll [OF assms, of eff Identity "Some S_i"] by simp
  show "first_match sem p a r ctx eff (tagged Boundary (map_option (removeAll s) S_b))
      = first_match sem p a r ctx eff (tagged Boundary S_b)" for eff
    by (rule first_match_removeAll [OF assms])
  show "first_match sem p a r ctx eff (tagged ResourcePolicy (map_option (removeAll s) S_r))
      = first_match sem p a r ctx eff (tagged ResourcePolicy S_r)" for eff
    by (rule first_match_removeAll [OF assms])
  show "(map_option (removeAll s) S_b = None) = (S_b = None)" by simp
qed

lemma combine_matched_match:
  "c \<in> set (matched (combine sem p a r ctx S_i S_b S_r)) \<Longrightarrow>
     statement_matches sem p a r ctx (snd c)"
  by (auto simp: combine_def Let_def first_match_def split: option.splits dest: find_in_set)

lemma evaluate_matched_match:
  assumes "evaluate sem req = Inr d" and "(src, s) \<in> set (matched d)"
  shows "\<exists>a r. req_action req = Some a \<and> req_resource req = Some r
           \<and> statement_matches sem (req_principal req) a r (req_context req) s"
  using assms combine_matched_match [of "(src, s)"]
  by (auto simp: evaluate_def evaluate_sets_def split: option.splits)

lemma guarded_deny_scenario:
  assumes "ctx (cond_key c) = None"
      and "identity_statements p =
             [\<lparr>stmt_effect = Deny, stmt_action = am, stmt_resource = rm, stmt_condition = [c]\<rparr>,
              \<lparr>stmt_effect = Allow, stmt_action = am, stmt_resource = rm, stmt_condition = []\<rparr>]"
      and "permissions_boundary p = None"
      and "action_matches a am" and "resource_matches sem p r rm"
  shows "evaluate sem
           \<lparr>req_principal = p, req_action = Some a, req_resource = Some r, req_context = ctx,
            req_resource_policy = None, req_resource_owner = owner\<rparr>
         = Inr \<lparr>outcome = Decision_Allow,
                matched = [(Identity, \<lparr>stmt_effect = Allow, stmt_action = am,
                                       stmt_resource = rm, stmt_condition = []\<rparr>)],
                not_evaluated = []\<rparr>"
proof -
  have f: "eval_condition sem ctx c = Inr False"
    using assms(1) by (simp add: absent_key_false)
  show ?thesis
    using assms(2-5) f
    by (simp add: evaluate_def evaluate_sets_def combine_def Let_def tagged_def first_match_def
        statement_matches_def condition_holds_def clauses_not_evaluated_def)
qed

text \<open>
  C4. A condition entry whose key is absent from the request context evaluates to false:
  the result is the value false, not an error. A statement guarded by such an entry does
  not match, deleting it from every statement set leaves outcome and cited statements as
  they are, and no Decision cites it, so as a Deny it does not apply and as an Allow it
  contributes no Allow. In particular, identity policies made of a Deny guarded by such
  an entry and an unconditional Allow for the same action and resource give Allow, citing
  the Allow statement.
\<close>

theorem absent_condition_key:
  assumes "ctx (cond_key c) = None"
  shows "eval_condition sem ctx c = Inr False
       \<and> (c \<in> set (stmt_condition s) \<longrightarrow>
            \<not> statement_matches sem p a r ctx s
            \<and> outcome (combine sem p a r ctx (removeAll s S_i) (map_option (removeAll s) S_b)
                         (map_option (removeAll s) S_r))
                = outcome (combine sem p a r ctx S_i S_b S_r)
            \<and> matched (combine sem p a r ctx (removeAll s S_i) (map_option (removeAll s) S_b)
                         (map_option (removeAll s) S_r))
                = matched (combine sem p a r ctx S_i S_b S_r)
            \<and> (req_context req = ctx \<and> evaluate sem req = Inr d \<longrightarrow>
                  (\<forall>src. (src, s) \<notin> set (matched d))))
       \<and> (identity_statements p =
             [\<lparr>stmt_effect = Deny, stmt_action = am, stmt_resource = rm, stmt_condition = [c]\<rparr>,
              \<lparr>stmt_effect = Allow, stmt_action = am, stmt_resource = rm, stmt_condition = []\<rparr>]
           \<and> permissions_boundary p = None \<and> action_matches a am
           \<and> resource_matches sem p r rm \<longrightarrow>
           evaluate sem
             \<lparr>req_principal = p, req_action = Some a, req_resource = Some r, req_context = ctx,
              req_resource_policy = None, req_resource_owner = owner\<rparr>
           = Inr \<lparr>outcome = Decision_Allow,
                  matched = [(Identity, \<lparr>stmt_effect = Allow, stmt_action = am,
                                         stmt_resource = rm, stmt_condition = []\<rparr>)],
                  not_evaluated = []\<rparr>)"
proof (intro conjI impI allI)
  show "eval_condition sem ctx c = Inr False"
    using assms by (simp add: absent_key_false)
next
  assume "c \<in> set (stmt_condition s)"
  then show "\<not> statement_matches sem p a r ctx s"
    using assms absent_key_no_match by blast
next
  assume "c \<in> set (stmt_condition s)"
  then have "\<not> statement_matches sem p a r ctx s"
    using assms absent_key_no_match by blast
  then show "outcome (combine sem p a r ctx (removeAll s S_i) (map_option (removeAll s) S_b)
                         (map_option (removeAll s) S_r))
                = outcome (combine sem p a r ctx S_i S_b S_r)"
    and "matched (combine sem p a r ctx (removeAll s S_i) (map_option (removeAll s) S_b)
                         (map_option (removeAll s) S_r))
                = matched (combine sem p a r ctx S_i S_b S_r)"
    using combine_removeAll by blast+
next
  fix src
  assume c: "c \<in> set (stmt_condition s)" and e: "req_context req = ctx \<and> evaluate sem req = Inr d"
  show "(src, s) \<notin> set (matched d)"
  proof
    assume "(src, s) \<in> set (matched d)"
    then obtain a' r' where "statement_matches sem (req_principal req) a' r' ctx s"
      using evaluate_matched_match e by blast
    then show False using absent_key_no_match assms c by blast
  qed
next
  assume "identity_statements p =
             [\<lparr>stmt_effect = Deny, stmt_action = am, stmt_resource = rm, stmt_condition = [c]\<rparr>,
              \<lparr>stmt_effect = Allow, stmt_action = am, stmt_resource = rm, stmt_condition = []\<rparr>]
           \<and> permissions_boundary p = None \<and> action_matches a am
           \<and> resource_matches sem p r rm"
  then show "evaluate sem
             \<lparr>req_principal = p, req_action = Some a, req_resource = Some r, req_context = ctx,
              req_resource_policy = None, req_resource_owner = owner\<rparr>
           = Inr \<lparr>outcome = Decision_Allow,
                  matched = [(Identity, \<lparr>stmt_effect = Allow, stmt_action = am,
                                         stmt_resource = rm, stmt_condition = []\<rparr>)],
                  not_evaluated = []\<rparr>"
    using guarded_deny_scenario assms by blast
qed


theorem deny_precedence_witness:
  "(Identity, allow_s3)
     \<in> set (candidates (sample_request (sample_user [allow_s3] (Some [deny_delete]))
                          ''s3:DeleteObject'' ''arn:aws:s3:::bucket/key''))
   \<and> (Boundary, deny_delete)
     \<in> set (candidates (sample_request (sample_user [allow_s3] (Some [deny_delete]))
                          ''s3:DeleteObject'' ''arn:aws:s3:::bucket/key''))
   \<and> map_sum id outcome
        (evaluate sample_semantics
           (sample_request (sample_user [allow_s3] (Some [deny_delete]))
              ''s3:DeleteObject'' ''arn:aws:s3:::bucket/key'')) = Inr Decision_Deny
   \<and> map_sum id matched
        (evaluate sample_semantics
           (sample_request (sample_user [allow_s3] (Some [deny_delete]))
              ''s3:DeleteObject'' ''arn:aws:s3:::bucket/key'')) = Inr [(Boundary, deny_delete)]"
proof -
  let ?req = "sample_request (sample_user [allow_s3] (Some [deny_delete]))
                ''s3:DeleteObject'' ''arn:aws:s3:::bucket/key''"
  have 1: "(Identity, allow_s3) \<in> set (candidates ?req)" by code_simp
  have 2: "stmt_effect allow_s3 = Allow" by (simp add: allow_s3_def)
  have 3: "matches_request sample_semantics ?req allow_s3" by code_simp
  have 4: "(Boundary, deny_delete) \<in> set (candidates ?req)" by code_simp
  have 5: "stmt_effect deny_delete = Deny" by (simp add: deny_delete_def)
  have 6: "matches_request sample_semantics ?req deny_delete" by code_simp
  have 7: "find (\<lambda>c. stmt_effect (snd c) = Deny \<and> matches_request sample_semantics ?req (snd c))
             (candidates ?req) = Some (Boundary, deny_delete)"
    by code_simp
  obtain d cited where "evaluate sample_semantics ?req = Inr d" "outcome d = Decision_Deny"
      "matched d = [cited]"
      "find (\<lambda>c. stmt_effect (snd c) = Deny \<and> matches_request sample_semantics ?req (snd c))
         (candidates ?req) = Some cited"
    using deny_precedence [OF 1 2 3 4 5 6] by blast
  then show ?thesis using 1 4 7 by simp
qed

theorem boundary_narrowing_witness:
  "map_sum id outcome
     (evaluate sample_semantics
        (sample_request (sample_user [allow_s3] (Some [allow_s3, deny_delete]))
           ''s3:GetObject'' ''arn:aws:s3:::bucket/key'')) = Inr Decision_Allow
   \<and> map_sum id outcome
       (evaluate_without_boundary sample_semantics
          (sample_request (sample_user [allow_s3] (Some [allow_s3, deny_delete]))
             ''s3:GetObject'' ''arn:aws:s3:::bucket/key'')) = Inr Decision_Allow
   \<and> map_sum id outcome
       (evaluate_identity_alone sample_semantics
          (sample_request (sample_user [allow_s3] (Some [allow_s3, deny_delete]))
             ''s3:GetObject'' ''arn:aws:s3:::bucket/key'')) = Inr Decision_Allow"
proof -
  let ?req = "sample_request (sample_user [allow_s3] (Some [allow_s3, deny_delete]))
                ''s3:GetObject'' ''arn:aws:s3:::bucket/key''"
  let ?d = "\<lparr>outcome = Decision_Allow, matched = [(Identity, allow_s3), (Boundary, allow_s3)],
             not_evaluated = []\<rparr>"
  have 1: "permissions_boundary (req_principal ?req)
      = Some \<lparr>policy_id = ''boundary'', policy_statements = [allow_s3, deny_delete]\<rparr>"
    by (simp add: sample_request_def sample_user_def)
  have 2: "evaluate sample_semantics ?req = Inr ?d" by code_simp
  have 3: "outcome ?d = Decision_Allow" by simp
  have 4: "\<exists>s. (Identity, s) \<in> set (matched ?d)" by auto
  show ?thesis
    using boundary_narrowing [OF 1 2 3] 2 4 by auto
qed

theorem absent_condition_key_witness:
  "eval_condition sample_semantics (\<lambda>k. None) mfa_absent = Inr False
   \<and> \<not> statement_matches sample_semantics (sample_user [deny_s3_without_mfa, allow_s3] None)
         ''s3:GetObject'' ''arn:aws:s3:::bucket/key'' (\<lambda>k. None) deny_s3_without_mfa
   \<and> evaluate sample_semantics
       (sample_request (sample_user [deny_s3_without_mfa, allow_s3] None)
          ''s3:GetObject'' ''arn:aws:s3:::bucket/key'')
     = Inr \<lparr>outcome = Decision_Allow, matched = [(Identity, allow_s3)], not_evaluated = []\<rparr>"
proof -
  let ?p = "sample_user [deny_s3_without_mfa, allow_s3] None"
  let ?req = "sample_request ?p ''s3:GetObject'' ''arn:aws:s3:::bucket/key''"
  have 1: "(\<lambda>k. None :: string list option) (cond_key mfa_absent) = None" by simp
  have 2: "mfa_absent \<in> set (stmt_condition deny_s3_without_mfa)"
    by (simp add: deny_s3_without_mfa_def)
  have 3: "identity_statements ?p =
      [\<lparr>stmt_effect = Deny, stmt_action = Action [''s3:*''], stmt_resource = Resource [''*''],
        stmt_condition = [mfa_absent]\<rparr>,
       \<lparr>stmt_effect = Allow, stmt_action = Action [''s3:*''], stmt_resource = Resource [''*''],
        stmt_condition = []\<rparr>]"
    by (simp add: identity_statements_def sample_user_def deny_s3_without_mfa_def allow_s3_def)
  have 4: "permissions_boundary ?p = None" by (simp add: sample_user_def)
  have 5: "action_matches ''s3:GetObject'' (Action [''s3:*''])" by code_simp
  have 6: "resource_matches sample_semantics ?p ''arn:aws:s3:::bucket/key'' (Resource [''*''])"
    by code_simp
  note t = absent_condition_key [OF 1, where sem = sample_semantics and s = deny_s3_without_mfa
      and p = ?p and a = "''s3:GetObject''" and r = "''arn:aws:s3:::bucket/key''"
      and am = "Action [''s3:*'']" and rm = "Resource [''*'']" and owner = None]
  show ?thesis
    using t 2 3 4 5 6 by (simp add: sample_request_def allow_s3_def)
qed

end
